theory Spec2Isabelle
  imports Main "HOL-Library.Word"
begin

section \<open>Errors\<close>

text \<open>
  Go functions return an \<open>error\<close> value next to their result. The errors that the
  modelled functions can produce are collected in one datatype.
\<close>

datatype error =
    ErrNoRows
  | ErrStorage string
  | ErrScan string
  | ErrSyntax
  | ErrRange
  | ErrIO string

section \<open>The store (data.go)\<close>

subsection \<open>Records\<close>

text \<open>The struct \<open>Configuration\<close> of data.go: thirteen string fields, in this order.\<close>

record Configuration =
  ID :: string
  OrgID :: string
  EnvID :: string
  BlobID :: string
  BlobResourceID :: string
  Type :: string
  Name :: string
  Revision :: string
  Path :: string
  Created :: string
  CreatedBy :: string
  Updated :: string
  UpdatedBy :: string

text \<open>
  A row of the table \<open>metadata_runtime_entity_metadata\<close>, which the queries alias as
  \<open>a\<close>. Every column is nullable text: \<open>None\<close> is SQL NULL.
\<close>

record metadata_row =
  a_id :: "string option"
  a_organization_id :: "string option"
  a_environment_id :: "string option"
  a_bean_blob_id :: "string option"
  a_resource_blob_id :: "string option"
  a_type :: "string option"
  a_name :: "string option"
  a_revision :: "string option"
  a_path :: "string option"
  a_created_at :: "string option"
  a_created_by :: "string option"
  a_updated_at :: "string option"
  a_updated_by :: "string option"

text \<open>
  A row of the table \<open>apid_blob_available\<close> created by \<open>initDb\<close>, aliased \<open>b\<close>. Its only
  writer is \<open>updateLocalFsLocation\<close>, which binds two Go strings, so neither column
  is ever NULL.
\<close>

record blob_row =
  b_id :: string
  b_local_fs_location :: string

text \<open>
  The database behind \<open>dbManager\<close>. \<open>fault\<close> gives, for each kind of call to the driver,
  the error the call currently fails with, if any. \<open>engine\<close> is the answer of the SQL
  engine to a query text that the model does not parse itself (see
  \<open>getLocalFSLocation\<close>): an error, or the values of the one column selected.
  \<open>row_rank\<close> is the engine's choice of the order in which a query without \<open>ORDER BY\<close>
  returns the configurations that qualify: by ascending rank, rows of equal rank in
  the order of the table. Every order can be chosen this way.
\<close>

datatype db_call = Begin | Query | Exec | Commit

record db =
  fault :: "db_call \<Rightarrow> error option"
  metadata_runtime_entity_metadata :: "metadata_row list"
  apid_blob_available :: "blob_row list"
  engine :: "string \<Rightarrow> error + string option list"
  row_rank :: "metadata_row \<Rightarrow> nat"

subsection \<open>SQL conditions\<close>

text \<open>
  SQL conditions are three-valued: \<open>None\<close> is NULL (unknown). A \<open>WHERE\<close> or \<open>ON\<close> clause
  keeps a row only when its condition is true.
\<close>

type_synonym sql_bool = "bool option"

definition sql_eq :: "string option \<Rightarrow> string option \<Rightarrow> sql_bool" where
  "sql_eq x y = (case x of None \<Rightarrow> None | Some u \<Rightarrow> (case y of None \<Rightarrow> None | Some v \<Rightarrow> Some (u = v)))"

definition sql_neq :: "string option \<Rightarrow> string option \<Rightarrow> sql_bool" where
  "sql_neq x y = map_option Not (sql_eq x y)"

definition IS_NULL :: "string option \<Rightarrow> sql_bool" where
  "IS_NULL x = Some (x = None)"

definition IS_NOT_NULL :: "string option \<Rightarrow> sql_bool" where
  "IS_NOT_NULL x = Some (x \<noteq> None)"

definition sql_and :: "sql_bool \<Rightarrow> sql_bool \<Rightarrow> sql_bool" where
  "sql_and p q =
     (if p = Some False then Some False
      else if q = Some False then Some False
      else if p = None then None
      else if q = None then None
      else Some True)"

definition sql_or :: "sql_bool \<Rightarrow> sql_bool \<Rightarrow> sql_bool" where
  "sql_or p q =
     (if p = Some True then Some True
      else if q = Some True then Some True
      else if p = None then None
      else if q = None then None
      else Some False)"

text \<open>\<open>x IN (subquery)\<close>: false on an empty result, NULL when \<open>x\<close> is NULL or when
  nothing matches and the result holds a NULL.\<close>

definition sql_in :: "string option \<Rightarrow> string option list \<Rightarrow> sql_bool" where
  "sql_in x xs =
     (if xs = [] then Some False
      else if x = None then None
      else if x \<in> set xs then Some True
      else if None \<in> set xs then None
      else Some False)"

definition sql_not_in :: "string option \<Rightarrow> string option list \<Rightarrow> sql_bool" where
  "sql_not_in x xs = map_option Not (sql_in x xs)"

definition is_true :: "sql_bool \<Rightarrow> bool" where
  "is_true p = (p = Some True)"

text \<open>The compound operators work on whole rows (here: one column), compare NULLs as
  equal and remove duplicates.\<close>

definition INTERSECT :: "string option list \<Rightarrow> string option list \<Rightarrow> string option list" where
  "INTERSECT xs ys = remdups (filter (\<lambda>x. x \<in> set ys) xs)"

definition UNION :: "string option list \<Rightarrow> string option list \<Rightarrow> string option list" where
  "UNION xs ys = remdups (xs @ ys)"

subsection \<open>Mapping rows to structs\<close>

text \<open>\<open>sql.NullString\<close> and its \<open>Scan\<close>: a NULL leaves \<open>String\<close> empty and \<open>Valid\<close> false.\<close>

record NullString =
  String :: string
  Valid :: bool

definition NullString_Scan :: "string option \<Rightarrow> NullString" where
  "NullString_Scan v = (case v of None \<Rightarrow> \<lparr>String = [], Valid = False\<rparr>
                                | Some s \<Rightarrow> \<lparr>String = s, Valid = True\<rparr>)"

text \<open>\<open>rows.Scan(cols...)\<close>: fails when the row does not have one value for each
  destination.\<close>

definition Scan :: "nat \<Rightarrow> string option list \<Rightarrow> error + NullString list" where
  "Scan num vals =
     (if length vals \<noteq> num then Inl (ErrScan ''sql: wrong number of destination arguments in Scan'')
      else Inr (map NullString_Scan vals))"

text \<open>What reflection sees of the type \<open>Configuration\<close>: the number of fields, the zero
  value made by \<open>reflect.New(t).Elem()\<close>, and \<open>v.Field(i).SetString(s)\<close>.\<close>

definition NumField :: nat where
  "NumField = 13"

definition zero_Configuration :: Configuration where
  "zero_Configuration =
     \<lparr>ID = [], OrgID = [], EnvID = [], BlobID = [], BlobResourceID = [], Type = [],
      Name = [], Revision = [], Path = [], Created = [], CreatedBy = [], Updated = [],
      UpdatedBy = []\<rparr>"

definition SetString :: "nat \<Rightarrow> string \<Rightarrow> Configuration \<Rightarrow> Configuration" where
  "SetString i s v =
     (if i = 0 then v\<lparr>ID := s\<rparr>
      else if i = 1 then v\<lparr>OrgID := s\<rparr>
      else if i = 2 then v\<lparr>EnvID := s\<rparr>
      else if i = 3 then v\<lparr>BlobID := s\<rparr>
      else if i = 4 then v\<lparr>BlobResourceID := s\<rparr>
      else if i = 5 then v\<lparr>Type := s\<rparr>
      else if i = 6 then v\<lparr>Name := s\<rparr>
      else if i = 7 then v\<lparr>Revision := s\<rparr>
      else if i = 8 then v\<lparr>Path := s\<rparr>
      else if i = 9 then v\<lparr>Created := s\<rparr>
      else if i = 10 then v\<lparr>CreatedBy := s\<rparr>
      else if i = 11 then v\<lparr>Updated := s\<rparr>
      else if i = 12 then v\<lparr>UpdatedBy := s\<rparr>
      else v)"

text \<open>The reading counterpart, \<open>v.Field(i).String()\<close>.\<close>

definition Field_String :: "nat \<Rightarrow> Configuration \<Rightarrow> string" where
  "Field_String i v =
     (if i = 0 then ID v
      else if i = 1 then OrgID v
      else if i = 2 then EnvID v
      else if i = 3 then BlobID v
      else if i = 4 then BlobResourceID v
      else if i = 5 then Type v
      else if i = 6 then Name v
      else if i = 7 then Revision v
      else if i = 8 then Path v
      else if i = 9 then Created v
      else if i = 10 then CreatedBy v
      else if i = 11 then Updated v
      else if i = 12 then UpdatedBy v
      else [])"

text \<open>The loop \<open>for i := range cols\<close>, shared by \<open>structFromRows\<close> and \<open>structFromRow\<close>:
  a field is set only from a valid column.\<close>

fun set_fields :: "NullString list \<Rightarrow> nat \<Rightarrow> Configuration \<Rightarrow> Configuration" where
  "set_fields [] i v = v"
| "set_fields (p # cols) i v =
     set_fields cols (Suc i) (if Valid p then SetString i (String p) v else v)"

text \<open>\<open>structFromRows\<close>: the loop \<open>for rows.Next()\<close> over the result set, appending to
  \<open>slice\<close>; the first failing \<open>Scan\<close> ends it with the error.\<close>

fun structFromRows_loop :: "string option list list \<Rightarrow> Configuration list \<Rightarrow> error + Configuration list" where
  "structFromRows_loop [] slice' = Inr slice'"
| "structFromRows_loop (r # rows) slice' =
     (case Scan NumField r of
        Inl err \<Rightarrow> Inl err
      | Inr cols \<Rightarrow> structFromRows_loop rows (slice' @ [set_fields cols 0 zero_Configuration]))"

definition structFromRows :: "string option list list \<Rightarrow> error + Configuration list" where
  "structFromRows rows = structFromRows_loop rows []"

definition dataDeploymentsFromRows :: "string option list list \<Rightarrow> error + Configuration list" where
  "dataDeploymentsFromRows rows =
     (case structFromRows rows of Inl err \<Rightarrow> Inl err | Inr tmp \<Rightarrow> Inr tmp)"

text \<open>\<open>structFromRow\<close>: a \<open>*sql.Row\<close> holds either the error of its query (\<open>ErrNoRows\<close>
  when nothing matched) or the first row.\<close>

definition structFromRow :: "error + string option list \<Rightarrow> error + Configuration" where
  "structFromRow row =
     (case row of
        Inl err \<Rightarrow> Inl err
      | Inr r \<Rightarrow>
          (case Scan NumField r of
             Inl err \<Rightarrow> Inl err
           | Inr cols \<Rightarrow> Inr (set_fields cols 0 zero_Configuration)))"

definition dataDeploymentsFromRow :: "error + string option list \<Rightarrow> error + Configuration" where
  "dataDeploymentsFromRow row =
     (case structFromRow row of Inl err \<Rightarrow> Inl err | Inr config \<Rightarrow> Inr config)"

text \<open>The thirteen columns every configuration query selects, in the order of the
  \<open>SELECT\<close> list.\<close>

definition select_columns :: "metadata_row \<Rightarrow> string option list" where
  "select_columns a =
     [a_id a, a_organization_id a, a_environment_id a, a_bean_blob_id a,
      a_resource_blob_id a, a_type a, a_name a, a_revision a, a_path a,
      a_created_at a, a_created_by a, a_updated_at a, a_updated_by a]"

text \<open>The struct a row is expected to become: every column copied into its field, a
  NULL column as the empty string. The mapping functions above are compared with it.\<close>

definition spec_Configuration_of_row :: "metadata_row \<Rightarrow> Configuration" where
  "spec_Configuration_of_row a =
     \<lparr>ID = case_option [] (\<lambda>s. s) (a_id a),
      OrgID = case_option [] (\<lambda>s. s) (a_organization_id a),
      EnvID = case_option [] (\<lambda>s. s) (a_environment_id a),
      BlobID = case_option [] (\<lambda>s. s) (a_bean_blob_id a),
      BlobResourceID = case_option [] (\<lambda>s. s) (a_resource_blob_id a),
      Type = case_option [] (\<lambda>s. s) (a_type a),
      Name = case_option [] (\<lambda>s. s) (a_name a),
      Revision = case_option [] (\<lambda>s. s) (a_revision a),
      Path = case_option [] (\<lambda>s. s) (a_path a),
      Created = case_option [] (\<lambda>s. s) (a_created_at a),
      CreatedBy = case_option [] (\<lambda>s. s) (a_created_by a),
      Updated = case_option [] (\<lambda>s. s) (a_updated_at a),
      UpdatedBy = case_option [] (\<lambda>s. s) (a_updated_by a)\<rparr>"

subsection \<open>getReadyDeployments\<close>

text \<open>\<open>SELECT b.id FROM apid_blob_available as b\<close>.\<close>

definition available_ids :: "db \<Rightarrow> string option list" where
  "available_ids d = map (\<lambda>b. Some (b_id b)) (apid_blob_available d)"

text \<open>The three selects inside \<open>a.id IN (...)\<close>. Each joins the configurations with the
  available blobs; \<open>""\<close> names no column, so SQLite reads it as the empty string.\<close>

definition resource_joined_ids :: "db \<Rightarrow> string option list" where
  "resource_joined_ids d =
     [a_id a. a \<leftarrow> metadata_runtime_entity_metadata d, b \<leftarrow> apid_blob_available d,
        is_true (sql_eq (a_resource_blob_id a) (Some (b_id b))),
        is_true (sql_and (IS_NOT_NULL (a_resource_blob_id a)) (sql_neq (a_resource_blob_id a) (Some [])))]"

definition bean_joined_ids_with_resource :: "db \<Rightarrow> string option list" where
  "bean_joined_ids_with_resource d =
     [a_id a. a \<leftarrow> metadata_runtime_entity_metadata d, b \<leftarrow> apid_blob_available d,
        is_true (sql_eq (a_bean_blob_id a) (Some (b_id b))),
        is_true (sql_and (IS_NOT_NULL (a_resource_blob_id a)) (sql_neq (a_resource_blob_id a) (Some [])))]"

definition bean_joined_ids_without_resource :: "db \<Rightarrow> string option list" where
  "bean_joined_ids_without_resource d =
     [a_id a. a \<leftarrow> metadata_runtime_entity_metadata d, b \<leftarrow> apid_blob_available d,
        is_true (sql_eq (a_bean_blob_id a) (Some (b_id b))),
        is_true (sql_or (IS_NULL (a_resource_blob_id a)) (sql_eq (a_resource_blob_id a) (Some [])))]"

text \<open>SQLite groups compound selects from the left: \<open>(... INTERSECT ...) UNION ...\<close>.\<close>

definition ready_ids :: "db \<Rightarrow> string option list" where
  "ready_ids d =
     UNION (INTERSECT (resource_joined_ids d) (bean_joined_ids_with_resource d))
       (bean_joined_ids_without_resource d)"

text \<open>The rows the outer \<open>SELECT\<close> returns: without a type filter those with
  \<open>WHERE a.id IN (...)\<close>, with one those with \<open>WHERE a.type = ? AND a.id IN (...)\<close>. The
  statement has no \<open>ORDER BY\<close>, so they come in the order the engine chooses.\<close>

definition ready_rows :: "string \<Rightarrow> db \<Rightarrow> metadata_row list" where
  "ready_rows typeFilter d =
     sort_key (row_rank d)
       (if typeFilter = []
        then filter (\<lambda>a. is_true (sql_in (a_id a) (ready_ids d))) (metadata_runtime_entity_metadata d)
        else filter (\<lambda>a. is_true (sql_and (sql_eq (a_type a) (Some typeFilter))
                                          (sql_in (a_id a) (ready_ids d))))
               (metadata_runtime_entity_metadata d))"

definition getReadyDeployments :: "string \<Rightarrow> db \<Rightarrow> error + Configuration list" where
  "getReadyDeployments typeFilter d =
     (case fault d Query of
        Some err \<Rightarrow> Inl err
      | None \<Rightarrow>
          (case dataDeploymentsFromRows (map select_columns (ready_rows typeFilter d)) of
             Inl err \<Rightarrow> Inl err
           | Inr deployments \<Rightarrow> Inr deployments))"

text \<open>The primary key \<open>id\<close> of the table, as SQLite enforces it on a text column: no two
  rows share an id that is not NULL. NULL ids are admitted, in any number.\<close>

definition primary_key :: "metadata_row list \<Rightarrow> bool" where
  "primary_key rows = distinct (map a_id (filter (\<lambda>a. a_id a \<noteq> None) rows))"

text \<open>The set of available blob ids, and the readiness predicate as the specification
  words it: the bean blob is available, and the resource blob is NULL, empty or
  available.\<close>

definition available :: "db \<Rightarrow> string set" where
  "available d = set (map b_id (apid_blob_available d))"

definition spec_ready :: "string set \<Rightarrow> metadata_row \<Rightarrow> bool" where
  "spec_ready A a =
     (a_bean_blob_id a \<in> Some ` A \<and> a_resource_blob_id a \<in> {None, Some []} \<union> Some ` A)"

subsection \<open>getUnreadyBlobs\<close>

text \<open>The two selects joined by \<open>UNION\<close>: the bean and the resource blob ids that are
  \<open>NOT IN (SELECT b.id FROM apid_blob_available as b)\<close>.\<close>

definition unready_union :: "db \<Rightarrow> string option list" where
  "unready_union d =
     UNION
       [a_bean_blob_id a. a \<leftarrow> metadata_runtime_entity_metadata d,
          is_true (sql_not_in (a_bean_blob_id a) (available_ids d))]
       [a_resource_blob_id a. a \<leftarrow> metadata_runtime_entity_metadata d,
          is_true (sql_not_in (a_resource_blob_id a) (available_ids d))]"

text \<open>The outer \<open>WHERE id IS NOT NULL AND id != ''\<close>.\<close>

definition unready_ids :: "db \<Rightarrow> string option list" where
  "unready_ids d =
     filter (\<lambda>i. is_true (sql_and (IS_NOT_NULL i) (sql_neq i (Some [])))) (unready_union d)"

text \<open>The loop \<open>for rows.Next()\<close>: \<open>rows.Scan(&id)\<close> into a Go string fails on NULL, and
  the function then returns the ids appended so far next to the error.\<close>

fun getUnreadyBlobs_loop :: "string option list \<Rightarrow> string list \<Rightarrow> string list \<times> error option" where
  "getUnreadyBlobs_loop [] ids = (ids, None)"
| "getUnreadyBlobs_loop (v # rows) ids =
     (case v of
        None \<Rightarrow> (ids, Some (ErrScan ''converting NULL to string is unsupported''))
      | Some i \<Rightarrow> getUnreadyBlobs_loop rows (ids @ [i]))"

definition getUnreadyBlobs :: "db \<Rightarrow> string list \<times> error option" where
  "getUnreadyBlobs d =
     (case fault d Query of
        Some err \<Rightarrow> ([], Some err)
      | None \<Rightarrow> getUnreadyBlobs_loop (unready_ids d) [])"

text \<open>The unready set as the specification words it: the blob ids some configuration
  refers to, without the empty id, minus the available ones.\<close>

definition spec_unready :: "metadata_row list \<Rightarrow> string set \<Rightarrow> string set" where
  "spec_unready C A =
     (Option.these (a_bean_blob_id ` set C) \<union> Option.these (a_resource_blob_id ` set C)) - {[]} - A"

subsection \<open>updateLocalFsLocation\<close>

text \<open>\<open>INSERT OR IGNORE INTO apid_blob_available (id, local_fs_location) VALUES (?, ?)\<close>:
  a row whose id is already in the table (the primary key) is ignored.\<close>

definition INSERT_OR_IGNORE :: "string \<Rightarrow> string \<Rightarrow> blob_row list \<Rightarrow> blob_row list" where
  "INSERT_OR_IGNORE blobId localFsLocation rows =
     (if blobId \<in> set (map b_id rows) then rows
      else rows @ [\<lparr>b_id = blobId, b_local_fs_location = localFsLocation\<rparr>])"

text \<open>The function returns an error or nil and changes the database; the model returns
  both. A failed \<open>Exec\<close> or \<open>Commit\<close> leaves the table as it was (the deferred rollback).\<close>

definition updateLocalFsLocation :: "string \<Rightarrow> string \<Rightarrow> db \<Rightarrow> error option \<times> db" where
  "updateLocalFsLocation blobId localFsLocation d =
     (case fault d Begin of
        Some err \<Rightarrow> (Some err, d)
      | None \<Rightarrow>
          (case fault d Exec of
             Some err \<Rightarrow> (Some err, d)
           | None \<Rightarrow>
               (case fault d Commit of
                  Some err \<Rightarrow> (Some err, d)
                | None \<Rightarrow>
                    (None, d\<lparr>apid_blob_available :=
                               INSERT_OR_IGNORE blobId localFsLocation (apid_blob_available d)\<rparr>))))"

subsection \<open>getLocalFSLocation\<close>

text \<open>
  The query text is built by concatenation:
  \<open>"SELECT local_fs_location FROM apid_blob_available WHERE id = '" + blobId + "'"\<close>.
  What the engine compares \<open>id\<close> with is therefore decided by SQL's reading of the text
  after the opening quote. \<open>string_literal\<close> reads that text: inside a literal two
  quotes stand for one quote character, a single quote ends the literal. The result is
  the literal's value when the literal ends exactly where the text ends; \<open>None\<close> when
  it ends earlier, never ends, or the text holds a NUL byte (which cuts the statement).
\<close>

definition quote :: char where
  "quote = CHR 0x27"

fun string_literal :: "string \<Rightarrow> string option" where
  "string_literal [] = None"
| "string_literal [c] = (if c = quote then Some [] else None)"
| "string_literal (c # c' # cs) =
     (if c = CHR 0x00 then None
      else if c = quote then
        (if c' = quote then map_option ((#) quote) (string_literal cs) else None)
      else map_option ((#) c) (string_literal (c' # cs)))"

definition lookup_text :: "string \<Rightarrow> string" where
  "lookup_text blobId =
     ''SELECT local_fs_location FROM apid_blob_available WHERE id = '' @ [quote] @ blobId @ [quote]"

text \<open>The rows the query returns: those whose id equals the literal's value, or the
  engine's answer to a text of any other shape.\<close>

definition lookup_rows :: "string \<Rightarrow> db \<Rightarrow> error + string option list" where
  "lookup_rows blobId d =
     (case fault d Query of
        Some err \<Rightarrow> Inl err
      | None \<Rightarrow>
          (case string_literal (blobId @ [quote]) of
             Some v \<Rightarrow>
               Inr [Some (b_local_fs_location b). b \<leftarrow> apid_blob_available d,
                      is_true (sql_eq (Some (b_id b)) (Some v))]
           | None \<Rightarrow> engine d (lookup_text blobId)))"

text \<open>The loop \<open>for rows.Next()\<close> scans every row into \<open>localFsLocation\<close>, so the last
  row wins; with no row the result is the empty string and no error.\<close>

fun getLocalFSLocation_loop :: "string option list \<Rightarrow> string \<Rightarrow> error + string" where
  "getLocalFSLocation_loop [] localFsLocation = Inr localFsLocation"
| "getLocalFSLocation_loop (v # rows) localFsLocation =
     (case v of
        None \<Rightarrow> Inl (ErrScan ''converting NULL to string is unsupported'')
      | Some s \<Rightarrow> getLocalFSLocation_loop rows s)"

definition getLocalFSLocation :: "string \<Rightarrow> db \<Rightarrow> error + string" where
  "getLocalFSLocation blobId d =
     (case lookup_rows blobId d of
        Inl err \<Rightarrow> Inl err
      | Inr rows \<Rightarrow> getLocalFSLocation_loop rows [])"

subsection \<open>Example data\<close>

text \<open>The scenario of the specification: configuration \<open>A\<close> with bean blob \<open>b1\<close> and no
  resource blob, configuration \<open>B\<close> with bean blob \<open>b2\<close> and resource blob \<open>r2\<close>, and
  \<open>b1\<close> the only blob on disk.\<close>

definition config_A :: metadata_row where
  "config_A =
     \<lparr>a_id = Some ''A'', a_organization_id = Some ''org'', a_environment_id = Some [],
      a_bean_blob_id = Some ''b1'', a_resource_blob_id = None, a_type = Some ''ORGANIZATION'',
      a_name = Some ''Org1'', a_revision = Some [], a_path = Some ''/organizations/Org1/'',
      a_created_at = Some ''2017-06-27 03:14:45.748+00:00'', a_created_by = Some ''defaultUser'',
      a_updated_at = Some ''2017-06-27 03:15:03.557+00:00'', a_updated_by = Some ''defaultUser''\<rparr>"

definition config_B :: metadata_row where
  "config_B =
     \<lparr>a_id = Some ''B'', a_organization_id = Some ''org'', a_environment_id = Some ''env'',
      a_bean_blob_id = Some ''b2'', a_resource_blob_id = Some ''r2'', a_type = Some ''ENVIRONMENT'',
      a_name = Some ''test'', a_revision = Some [], a_path = Some ''/organizations/Org1//environments/test/'',
      a_created_at = Some ''2017-06-27 03:14:46.018+00:00'', a_created_by = Some ''defaultUser'',
      a_updated_at = Some ''2017-06-27 03:14:46.018+00:00'', a_updated_by = Some ''defaultUser''\<rparr>"

definition no_fault :: "db_call \<Rightarrow> error option" where
  "no_fault c = None"

definition syntax_error_engine :: "string \<Rightarrow> error + string option list" where
  "syntax_error_engine q = Inl (ErrStorage ''syntax error'')"

definition table_order :: "metadata_row \<Rightarrow> nat" where
  "table_order a = 0"

definition empty_db :: db where
  "empty_db =
     \<lparr>fault = no_fault, metadata_runtime_entity_metadata = [], apid_blob_available = [],
      engine = syntax_error_engine, row_rank = table_order\<rparr>"

definition scenario_db :: db where
  "scenario_db =
     \<lparr>fault = no_fault, metadata_runtime_entity_metadata = [config_A, config_B],
      apid_blob_available = [\<lparr>b_id = ''b1'', b_local_fs_location = ''/tmp/tmpapid/b1''\<rparr>],
      engine = syntax_error_engine, row_rank = table_order\<rparr>"

text \<open>A table whose only configuration has a NULL id, with its bean blob \<open>b1\<close> on disk and
  no resource blob.\<close>

definition null_id_db :: db where
  "null_id_db =
     \<lparr>fault = no_fault, metadata_runtime_entity_metadata = [config_A\<lparr>a_id := None\<rparr>],
      apid_blob_available = [\<lparr>b_id = ''b1'', b_local_fs_location = ''/tmp/tmpapid/b1''\<rparr>],
      engine = syntax_error_engine, row_rank = table_order\<rparr>"

text \<open>The scenario after blob \<open>b2\<close> has arrived as well.\<close>

definition later_db :: db where
  "later_db =
     scenario_db\<lparr>apid_blob_available :=
       [\<lparr>b_id = ''b1'', b_local_fs_location = ''/tmp/tmpapid/b1''\<rparr>,
        \<lparr>b_id = ''b2'', b_local_fs_location = ''/tmp/tmpapid/b2''\<rparr>]\<rparr>"

text \<open>A blob id that holds two quote characters: \<open>a''b\<close> as Go writes it.\<close>

definition quoted_blob_id :: string where
  "quoted_blob_id = [CHR ''a'', quote, quote, CHR ''b'']"

section \<open>The API (api.go)\<close>

subsection \<open>Numbers and their text\<close>

text \<open>\<open>strconv.FormatInt(e, 10)\<close>: the decimal digits, after a minus sign for a negative
  number.\<close>

definition digit_char :: "nat \<Rightarrow> char" where
  "digit_char n = char_of (48 + n)"

function format_nat :: "nat \<Rightarrow> string" where
  "format_nat n = (if n < 10 then [digit_char n] else format_nat (n div 10) @ [digit_char (n mod 10)])"
  by pat_completeness auto
termination
  by (relation "measure (\<lambda>n. n)") auto

declare format_nat.simps [simp del]

definition FormatInt :: "int \<Rightarrow> string" where
  "FormatInt i = (if i < 0 then CHR ''-'' # format_nat (nat (- i)) else format_nat (nat i))"

text \<open>
  \<open>strconv.Atoi\<close> on a 64-bit platform, as the Go library documents it: an optional
  sign, then at least one decimal digit and nothing else; the value has to fit
  \<open>int64\<close>. The loop is \<open>ParseUint\<close>'s: it reads from the left and stops at the first
  character that is no digit (syntax error) or at the digit with which the value leaves
  64 bits (range error).
\<close>

definition is_digit :: "char \<Rightarrow> bool" where
  "is_digit c = (48 \<le> (of_char c :: nat) \<and> (of_char c :: nat) \<le> 57)"

definition digit_value :: "char \<Rightarrow> nat" where
  "digit_value c = of_char c - 48"

fun ParseUint_loop :: "string \<Rightarrow> nat \<Rightarrow> error + nat" where
  "ParseUint_loop [] n = Inr n"
| "ParseUint_loop (c # cs) n =
     (if \<not> is_digit c then Inl ErrSyntax
      else if 2 ^ 64 \<le> n * 10 + digit_value c then Inl ErrRange
      else ParseUint_loop cs (n * 10 + digit_value c))"

definition ParseInt :: "bool \<Rightarrow> string \<Rightarrow> error + int" where
  "ParseInt neg ds =
     (if ds = [] then Inl ErrSyntax
      else
        (case ParseUint_loop ds 0 of
           Inl err \<Rightarrow> Inl err
         | Inr un \<Rightarrow>
             if \<not> neg \<and> 2 ^ 63 \<le> un then Inl ErrRange
             else if neg \<and> 2 ^ 63 < un then Inl ErrRange
             else Inr (if neg then - int un else int un)))"

definition Atoi :: "string \<Rightarrow> error + int" where
  "Atoi s =
     (case s of
        [] \<Rightarrow> Inl ErrSyntax
      | c # cs \<Rightarrow>
          if c = CHR ''-'' then ParseInt True cs
          else if c = CHR ''+'' then ParseInt False cs
          else ParseInt False s)"

text \<open>\<open>err.Error()\<close>.\<close>

fun Error :: "error \<Rightarrow> string" where
  "Error ErrNoRows = ''sql: no rows in result set''"
| "Error (ErrStorage msg) = msg"
| "Error (ErrScan msg) = msg"
| "Error ErrSyntax = ''invalid syntax''"
| "Error ErrRange = ''value out of range''"
| "Error (ErrIO msg) = msg"

subsection \<open>Types\<close>

text \<open>
  The struct \<open>DataDeployment\<close> is declared outside api.go and data.go. api.go reads
  nine string fields of it, and the record has those; the prefix \<open>dd_\<close> keeps them apart
  from the fields of \<open>Configuration\<close>.
\<close>

record DataDeployment =
  dd_OrgID :: string
  dd_EnvID :: string
  dd_Revision :: string
  dd_GWBlobID :: string
  dd_BlobResourceID :: string
  dd_Created :: string
  dd_Updated :: string
  dd_Type :: string
  dd_BlobURL :: string

text \<open>\<open>deploymentsResult\<close>, what a waiter is sent.\<close>

record deploymentsResult =
  result_deployments :: "DataDeployment list"
  result_err :: "error option"
  result_eTag :: string

text \<open>\<open>errorResponse\<close>, \<open>ApiDeploymentDetails\<close> and \<open>ApiDeploymentResponse\<close>, the structs that
  are sent as JSON. The fields carry their JSON names.\<close>

record errorResponse =
  json_errorCode :: int
  json_reason :: string

record ApiDeploymentDetails =
  json_self :: string
  json_name :: string
  json_org :: string
  json_env :: string
  json_type :: string
  json_bloburl :: string
  json_revision :: string
  json_blobId :: string
  json_resourceBlobId :: string
  json_created :: string
  json_updated :: string

record ApiDeploymentResponse =
  json_kind :: string
  json_collection_self :: string
  json_contents :: "ApiDeploymentDetails list"

definition API_ERR_BAD_BLOCK :: int where
  "API_ERR_BAD_BLOCK = 1"

definition API_ERR_INTERNAL :: int where
  "API_ERR_INTERNAL = 2"

definition StatusOK :: nat where
  "StatusOK = 200"

definition StatusNotModified :: nat where
  "StatusNotModified = 304"

definition StatusBadRequest :: nat where
  "StatusBadRequest = 400"

definition StatusNotFound :: nat where
  "StatusNotFound = 404"

definition StatusInternalServerError :: nat where
  "StatusInternalServerError = 500"

subsection \<open>The response writer\<close>

text \<open>
  An \<open>http.ResponseWriter\<close> as a recorder: the status line once it is written, the
  headers, and what was written to the body. \<open>json.Marshal\<close> of the two response structs
  cannot fail (they hold strings and integers only); the body keeps the marshalled
  struct rather than its bytes.
\<close>

datatype written =
    JSON_errorResponse errorResponse
  | JSON_ApiDeploymentResponse ApiDeploymentResponse
  | Bytes "8 word list"

record ResponseWriter =
  status :: "nat option"
  header :: "(string \<times> string) list"
  body :: "written list"

definition new_ResponseWriter :: ResponseWriter where
  "new_ResponseWriter = \<lparr>status = None, header = [], body = []\<rparr>"

text \<open>\<open>w.WriteHeader\<close>: the first call writes the status line, a later one is ignored.\<close>

definition WriteHeader :: "nat \<Rightarrow> ResponseWriter \<Rightarrow> ResponseWriter" where
  "WriteHeader code w = (if status w = None then w\<lparr>status := Some code\<rparr> else w)"

text \<open>\<open>w.Write\<close>: writes the status line \<open>200\<close> first when none was written.\<close>

definition Write :: "written \<Rightarrow> ResponseWriter \<Rightarrow> ResponseWriter" where
  "Write b w = (WriteHeader StatusOK w)\<lparr>body := body w @ [b]\<rparr>"

text \<open>\<open>w.Header().Set\<close>: has an effect only before the status line is written.\<close>

definition Header_Set :: "string \<Rightarrow> string \<Rightarrow> ResponseWriter \<Rightarrow> ResponseWriter" where
  "Header_Set k v w =
     (if status w = None then w\<lparr>header := filter (\<lambda>kv. fst kv \<noteq> k) (header w) @ [(k, v)]\<rparr> else w)"

definition json_Marshal_errorResponse :: "errorResponse \<Rightarrow> error + written" where
  "json_Marshal_errorResponse e = Inr (JSON_errorResponse e)"

definition json_Marshal_ApiDeploymentResponse :: "ApiDeploymentResponse \<Rightarrow> error + written" where
  "json_Marshal_ApiDeploymentResponse r = Inr (JSON_ApiDeploymentResponse r)"

definition writeError :: "ResponseWriter \<Rightarrow> nat \<Rightarrow> int \<Rightarrow> string \<Rightarrow> ResponseWriter" where
  "writeError w st code reason =
     (let w1 = WriteHeader st w;
          e = \<lparr>json_errorCode = code, json_reason = reason\<rparr>
      in case json_Marshal_errorResponse e of
           Inl err \<Rightarrow> w1
         | Inr bytes \<Rightarrow> Write bytes w1)"

definition writeInternalError :: "ResponseWriter \<Rightarrow> string \<Rightarrow> ResponseWriter" where
  "writeInternalError w e = writeError w StatusInternalServerError API_ERR_INTERNAL e"

subsection \<open>State and collaborators\<close>

text \<open>
  api.go calls the package-level functions \<open>getReadyDeployments()\<close> and
  \<open>getUnreadyDeployments()\<close> and reads the configuration with \<open>config.GetString\<close>. None of
  them is defined in api.go or data.go (data.go has the method
  \<open>getReadyDeployments(typeFilter)\<close> of \<open>dbManager\<close>, which returns \<open>Configuration\<close>s), so
  what they answer at the moment of a call is a parameter of the model: the pair a Go
  call returns, a slice and an error.
\<close>

record env =
  getReadyDeployments_answer :: "DataDeployment list \<times> error option"
  getUnreadyDeployments_answer :: "DataDeployment list \<times> error option"
  config_GetString :: "string \<Rightarrow> string"

text \<open>
  The state that api.go owns: the package variable \<open>eTag\<close>, an \<open>int64\<close>; the map
  \<open>subscribers\<close> of \<open>distributeEvents\<close>, used as a set of channels; and the content of every
  waiter channel. A channel is named by a number.
\<close>

record world =
  eTag :: "64 word"
  subscribers :: "nat set"
  channels :: "nat \<Rightarrow> deploymentsResult list"

text \<open>\<open>atomic.AddInt64(&eTag, 1)\<close> wraps around like every \<open>int64\<close> addition; the token is
  the decimal text of the signed value.\<close>

definition incrementETag :: "world \<Rightarrow> string \<times> world" where
  "incrementETag w = (FormatInt (sint (eTag w + 1)), w\<lparr>eTag := eTag w + 1\<rparr>)"

definition getETag :: "world \<Rightarrow> string" where
  "getETag w = FormatInt (sint (eTag w))"

subsection \<open>distributeEvents\<close>

text \<open>
  What the loop of \<open>distributeEvents\<close> can receive: a settled batch from the debouncer on
  \<open>deliverDeployments\<close> (with it, the collaborators as they are when the goroutine started
  for the batch runs), the closing of that channel, a channel on \<open>addSubscriber\<close>, or a
  channel (possibly nil) on \<open>removeSubscriber\<close>.
\<close>

datatype event =
    DeliverDeployments env
  | Closed
  | AddSubscriber nat
  | RemoveSubscriber "nat option"

text \<open>\<open>for subscriber := range subs { subscriber <- result }\<close>. Every waiter channel has
  room for one result and is registered by the one handler that made it, so the send
  does not block.\<close>

definition deliver :: "nat set \<Rightarrow> deploymentsResult \<Rightarrow> (nat \<Rightarrow> deploymentsResult list) \<Rightarrow> nat \<Rightarrow> deploymentsResult list" where
  "deliver subs r chans = (\<lambda>c. if c \<in> subs then chans c @ [r] else chans c)"

text \<open>One turn of the loop. For a batch the goroutine is run at once: it increments the
  token, asks \<open>getUnreadyDeployments()\<close> and sends the result to the waiters taken from
  \<open>subscribers\<close>, which is replaced by an empty map.\<close>

definition distributeEvents_step :: "event \<Rightarrow> world \<Rightarrow> world" where
  "distributeEvents_step ev w =
     (case ev of
        DeliverDeployments e \<Rightarrow>
          (let subs = subscribers w;
               w1 = w\<lparr>subscribers := {}\<rparr>;
               (eTag', w2) = incrementETag w1;
               (deployments, err) = getUnreadyDeployments_answer e
           in w2\<lparr>channels :=
                    deliver subs
                      \<lparr>result_deployments = deployments, result_err = err, result_eTag = eTag'\<rparr>
                      (channels w2)\<rparr>)
      | Closed \<Rightarrow> w
      | AddSubscriber subscriber \<Rightarrow> w\<lparr>subscribers := insert subscriber (subscribers w)\<rparr>
      | RemoveSubscriber subscriber \<Rightarrow>
          (case subscriber of
             None \<Rightarrow> w
           | Some c \<Rightarrow> w\<lparr>subscribers := subscribers w - {c}\<rparr>))"

text \<open>The loop over what arrives; it returns when \<open>deliverDeployments\<close> is closed.\<close>

fun distributeEvents :: "event list \<Rightarrow> world \<Rightarrow> world" where
  "distributeEvents [] w = w"
| "distributeEvents (Closed # evs) w = w"
| "distributeEvents (ev # evs) w = distributeEvents evs (distributeEvents_step ev w)"

text \<open>The number of settled batches among the events that the loop handles.\<close>

fun settles :: "event list \<Rightarrow> nat" where
  "settles [] = 0"
| "settles (Closed # evs) = 0"
| "settles (DeliverDeployments e # evs) = Suc (settles evs)"
| "settles (ev # evs) = settles evs"

subsection \<open>GET /configurations\<close>

definition get_http_host :: "env \<Rightarrow> string" where
  "get_http_host e =
     (let proto = config_GetString e ''protocol_type'';
          proto = (if proto = [] then ''http'' else proto)
      in proto @ ''://'' @ config_GetString e ''api_listen'')"

text \<open>The loop of \<open>sendDeployments\<close> that turns each deployment into its detail: nine
  fields are copied, \<open>Self\<close> and \<open>Name\<close> stay empty.\<close>

fun sendDeployments_loop :: "DataDeployment list \<Rightarrow> ApiDeploymentDetails list \<Rightarrow> ApiDeploymentDetails list" where
  "sendDeployments_loop [] apiDepDetails = apiDepDetails"
| "sendDeployments_loop (d # dataDeps) apiDepDetails =
     sendDeployments_loop dataDeps
       (apiDepDetails @
         [\<lparr>json_self = [], json_name = [], json_org = dd_OrgID d, json_env = dd_EnvID d,
           json_type = dd_Type d, json_bloburl = dd_BlobURL d, json_revision = dd_Revision d,
           json_blobId = dd_GWBlobID d, json_resourceBlobId = dd_BlobResourceID d,
           json_created = dd_Created d, json_updated = dd_Updated d\<rparr>])"

definition sendDeployments :: "env \<Rightarrow> ResponseWriter \<Rightarrow> DataDeployment list \<Rightarrow> string \<Rightarrow> ResponseWriter" where
  "sendDeployments e w dataDeps eTag' =
     (let apiDeps =
            \<lparr>json_kind = ''Collections'',
             json_collection_self = get_http_host e @ ''/configurations'',
             json_contents = sendDeployments_loop dataDeps []\<rparr>
      in case json_Marshal_ApiDeploymentResponse apiDeps of
           Inl err \<Rightarrow> WriteHeader StatusInternalServerError w
         | Inr b \<Rightarrow> Write b (Header_Set ''ETag'' eTag' w))"

definition sendReadyDeployments :: "env \<Rightarrow> world \<Rightarrow> ResponseWriter \<Rightarrow> ResponseWriter" where
  "sendReadyDeployments e st w =
     (let eTag' = getETag st;
          (deployments, err) = getReadyDeployments_answer e
      in if err \<noteq> None then writeInternalError w ''Database error''
         else sendDeployments e w deployments eTag')"

text \<open>What the handler reads of the request: the query parameter \<open>block\<close> and the header
  \<open>If-None-Match\<close>, each empty when absent.\<close>

record request =
  block :: string
  ifNoneMatch :: string

text \<open>The \<open>select\<close> of the handler: a result arrives on the waiter channel, or the timer
  fires. Which one happens is decided outside the handler.\<close>

datatype select_case = Received deploymentsResult | TimedOut

text \<open>What a handler has done when it returns: the response, and what it sent to
  \<open>distributeEvents\<close>.\<close>

record handled =
  response :: ResponseWriter
  sent :: "event list"

text \<open>
  \<open>apiGetCurrentDeployments\<close>. \<open>ch\<close> is the channel that \<open>make\<close> returns if the handler
  subscribes, \<open>sel\<close> the case its \<open>select\<close> takes. Without a subscription the channel
  variable is nil, nothing can be received from it, and only the timer can fire.
\<close>

definition apiGetCurrentDeployments ::
    "env \<Rightarrow> world \<Rightarrow> nat \<Rightarrow> select_case \<Rightarrow> request \<Rightarrow> ResponseWriter \<Rightarrow> handled" where
  "apiGetCurrentDeployments e st ch sel r w =
     (let b = block r in
      case (if b \<noteq> [] then Atoi b else Inr 0) of
        Inl err \<Rightarrow>
          \<lparr>response = writeError w StatusBadRequest API_ERR_BAD_BLOCK
                        ''bad block value, must be number of seconds'',
           sent = []\<rparr>
      | Inr timeout \<Rightarrow>
          (let eTag' = getETag st in
           if eTag' = ifNoneMatch r \<and> timeout = 0 then
             \<lparr>response = WriteHeader StatusNotModified w, sent = []\<rparr>
           else if eTag' \<noteq> ifNoneMatch r then
             \<lparr>response = sendReadyDeployments e st w, sent = []\<rparr>
           else
             (let newDeploymentsChannel =
                    (if timeout > 0 \<and> ifNoneMatch r \<noteq> [] then Some ch else None);
                  subscribe =
                    (case newDeploymentsChannel of None \<Rightarrow> [] | Some c \<Rightarrow> [AddSubscriber c])
              in case (if newDeploymentsChannel = None then TimedOut else sel) of
                   Received result \<Rightarrow>
                     \<lparr>response =
                        (if result_err result \<noteq> None then writeInternalError w ''Database error''
                         else sendDeployments e w (result_deployments result) (result_eTag result)),
                      sent = subscribe\<rparr>
                 | TimedOut \<Rightarrow>
                     \<lparr>response =
                        (if ifNoneMatch r \<noteq> [] then WriteHeader StatusNotModified w
                         else sendReadyDeployments e st w),
                      sent = subscribe @ [RemoveSubscriber newDeploymentsChannel]\<rparr>)))"

subsection \<open>GET /blob/{blobId}\<close>

text \<open>\<open>ioutil.ReadFile\<close> on a file system given as a map from paths to contents; the empty
  path names no file.\<close>

definition ReadFile :: "(string \<rightharpoonup> 8 word list) \<Rightarrow> string \<Rightarrow> error + 8 word list" where
  "ReadFile files filename =
     (if filename = [] then Inl (ErrIO ''open : no such file or directory'')
      else
        (case files filename of
           None \<Rightarrow> Inl (ErrIO (''open '' @ filename @ '': no such file or directory''))
         | Some bytes \<Rightarrow> Inr bytes))"

text \<open>\<open>io.Copy(w, bytes.NewReader(byte))\<close>: writes the bytes, unless the connection fails
  with the given error; then nothing is counted as written.\<close>

definition io_Copy :: "error option \<Rightarrow> 8 word list \<Rightarrow> ResponseWriter \<Rightarrow> error option \<times> ResponseWriter" where
  "io_Copy connection_error bytes w =
     (case connection_error of
        Some err \<Rightarrow> (Some err, w)
      | None \<Rightarrow> (None, Write (Bytes bytes) w))"

text \<open>\<open>apiReturnBlobData\<close>, with \<open>getLocalFSLocation\<close> as data.go defines it.\<close>

definition apiReturnBlobData ::
    "db \<Rightarrow> (string \<rightharpoonup> 8 word list) \<Rightarrow> error option \<Rightarrow> string \<Rightarrow> ResponseWriter \<Rightarrow> ResponseWriter" where
  "apiReturnBlobData d files connection_error blobId w =
     (case getLocalFSLocation blobId d of
        Inl err \<Rightarrow> writeInternalError w (''BlobId '' @ blobId @ '' has no mapping blob file'')
      | Inr fs \<Rightarrow>
          (case ReadFile files fs of
             Inl err \<Rightarrow> writeInternalError w (Error err)
           | Inr bytes \<Rightarrow>
               (case io_Copy connection_error bytes w of
                  (Some err, w') \<Rightarrow> writeInternalError w' (Error err)
                | (None, w') \<Rightarrow> w')))"

subsection \<open>Example data for the API\<close>

definition deployment_A :: DataDeployment where
  "deployment_A =
     \<lparr>dd_OrgID = ''org'', dd_EnvID = [], dd_Revision = ''1'', dd_GWBlobID = ''b1'',
      dd_BlobResourceID = [], dd_Created = ''2017-04-05 04:47:36.462 +0000 UTC'',
      dd_Updated = ''2017-04-05T04:47:36.462Z'', dd_Type = ''ORGANIZATION'',
      dd_BlobURL = ''http://localhost:9000/blob/b1''\<rparr>"

definition deployment_B :: DataDeployment where
  "deployment_B =
     \<lparr>dd_OrgID = ''org'', dd_EnvID = ''env'', dd_Revision = ''1'', dd_GWBlobID = ''b2'',
      dd_BlobResourceID = ''r2'', dd_Created = ''2017-06-22 16:41:02.334'',
      dd_Updated = ''2017-06-22 16:41:02.334'', dd_Type = ''ENVIRONMENT'',
      dd_BlobURL = ''http://localhost:9000/blob/b2''\<rparr>"

definition localhost_config :: "string \<Rightarrow> string" where
  "localhost_config k = (if k = ''api_listen'' then ''localhost:9000'' else [])"

text \<open>Configuration \<open>A\<close> is ready, configuration \<open>B\<close> is not.\<close>

definition scenario_env :: env where
  "scenario_env =
     \<lparr>getReadyDeployments_answer = ([deployment_A], None),
      getUnreadyDeployments_answer = ([deployment_B], None),
      config_GetString = localhost_config\<rparr>"

definition no_results :: "nat \<Rightarrow> deploymentsResult list" where
  "no_results c = []"

text \<open>The state at start, and the state at start with one waiter on channel \<open>7\<close>.\<close>

definition initial_world :: world where
  "initial_world = \<lparr>eTag = 0, subscribers = {}, channels = no_results\<rparr>"

definition waiting_world :: world where
  "waiting_world = \<lparr>eTag = 0, subscribers = {7}, channels = no_results\<rparr>"

text \<open>The state in which the counter holds the largest \<open>int64\<close>.\<close>

definition last_world :: world where
  "last_world = \<lparr>eTag = 0x7FFFFFFFFFFFFFFF, subscribers = {}, channels = no_results\<rparr>"

section \<open>Properties of the store\<close>

subsection \<open>Rows become structs, NULL becomes the empty string\<close>

lemma SetString_same: "SetString i (Field_String i c) c = c"
  by (simp add: SetString_def Field_String_def)

lemma scan_step:
  "Field_String i c = [] \<Longrightarrow>
   (if Valid (NullString_Scan x) then SetString i (String (NullString_Scan x)) c else c) =
     SetString i (case_option [] (\<lambda>s. s) x) c"
  using SetString_same[of i c] by (cases x) (simp_all add: NullString_Scan_def)

lemma set_fields_select_columns:
  "set_fields (map NullString_Scan (select_columns a)) 0 zero_Configuration = spec_Configuration_of_row a"
  by (simp add: select_columns_def scan_step SetString_def Field_String_def zero_Configuration_def
      spec_Configuration_of_row_def)

lemma Scan_select_columns: "Scan NumField (select_columns a) = Inr (map NullString_Scan (select_columns a))"
  by (simp add: Scan_def NumField_def select_columns_def)

lemma structFromRows_loop_select:
  "structFromRows_loop (map select_columns rows) acc = Inr (acc @ map spec_Configuration_of_row rows)"
  by (induction rows arbitrary: acc) (simp_all add: Scan_select_columns set_fields_select_columns)

lemma structFromRows_select:
  "structFromRows (map select_columns rows) = Inr (map spec_Configuration_of_row rows)"
  by (simp add: structFromRows_def structFromRows_loop_select)

lemma structFromRow_select:
  "structFromRow (Inr (select_columns a)) = Inr (spec_Configuration_of_row a)"
  by (simp add: structFromRow_def Scan_select_columns set_fields_select_columns)


lemma NULL_column_empty_field:
  assumes "i < NumField" and "select_columns a ! i = None"
  shows "Field_String i (spec_Configuration_of_row a) = []"
proof -
  from assms(1) have "i \<in> {0, 1, 2, 3, 4, 5, 6, 7, 8, 9, 10, 11, 12}"
    unfolding NumField_def by simp arith
  with assms(2) show ?thesis
    by (auto simp: select_columns_def Field_String_def spec_Configuration_of_row_def)
qed

text \<open>
  Claim C10. Every row mapped by \<open>structFromRow\<close> or \<open>structFromRows\<close> becomes the struct that
  holds each column in its field and the empty string where the column is NULL: the
  field of a NULL column reads as the empty string. In particular a row with a NULL
  \<open>resource_blob_id\<close> and the same row with an empty \<open>resource_blob_id\<close> are mapped to the
  same \<open>Configuration\<close>, by both functions.
\<close>

theorem structFromRow_NULL_is_empty_string:
  "structFromRow (Inr (select_columns a)) = Inr (spec_Configuration_of_row a)
   \<and> structFromRows (map select_columns rows) = Inr (map spec_Configuration_of_row rows)
   \<and> (\<forall>i < NumField. select_columns a ! i = None \<longrightarrow>
         (\<exists>c. structFromRow (Inr (select_columns a)) = Inr c \<and> Field_String i c = []))
   \<and> structFromRow (Inr (select_columns (a\<lparr>a_resource_blob_id := None\<rparr>)))
       = structFromRow (Inr (select_columns (a\<lparr>a_resource_blob_id := Some []\<rparr>)))
   \<and> structFromRows [select_columns (a\<lparr>a_resource_blob_id := None\<rparr>)]
       = structFromRows [select_columns (a\<lparr>a_resource_blob_id := Some []\<rparr>)]"
proof -
  have same: "spec_Configuration_of_row (a\<lparr>a_resource_blob_id := None\<rparr>)
      = spec_Configuration_of_row (a\<lparr>a_resource_blob_id := Some []\<rparr>)"
    by (simp add: spec_Configuration_of_row_def)
  have one: "structFromRows [select_columns r] = Inr [spec_Configuration_of_row r]" for r
    using structFromRows_select [of "[r]"] by simp
  show ?thesis
    by (simp add: structFromRow_select structFromRows_select one same NULL_column_empty_field)
qed

theorem structFromRow_NULL_is_empty_string_witness:
  "4 < NumField \<and> select_columns config_A ! 4 = None
   \<and> structFromRow (Inr (select_columns config_A)) =
     Inr \<lparr>ID = ''A'', OrgID = ''org'', EnvID = [], BlobID = ''b1'', BlobResourceID = [],
          Type = ''ORGANIZATION'', Name = ''Org1'', Revision = [], Path = ''/organizations/Org1/'',
          Created = ''2017-06-27 03:14:45.748+00:00'', CreatedBy = ''defaultUser'',
          Updated = ''2017-06-27 03:15:03.557+00:00'', UpdatedBy = ''defaultUser''\<rparr>
   \<and> Field_String 4 (spec_Configuration_of_row config_A) = []"
  using structFromRow_NULL_is_empty_string [of config_A "[]"]
  by (simp add: spec_Configuration_of_row_def config_A_def NumField_def select_columns_def
      Field_String_def)

subsection \<open>The ready configurations\<close>

lemma is_true_sql_in: "is_true (sql_in x xs) \<longleftrightarrow> x \<noteq> None \<and> x \<in> set xs"
  by (auto simp: is_true_def sql_in_def)

lemma is_true_eq_Some: "is_true (sql_eq x (Some v)) \<longleftrightarrow> x = Some v"
  by (auto simp: is_true_def sql_eq_def split: option.splits)

lemma has_resource: "is_true (sql_and (IS_NOT_NULL x) (sql_neq x (Some []))) \<longleftrightarrow> x \<noteq> None \<and> x \<noteq> Some []"
  by (cases x) (auto simp: is_true_def sql_and_def IS_NOT_NULL_def sql_neq_def sql_eq_def)

lemma no_resource: "is_true (sql_or (IS_NULL x) (sql_eq x (Some []))) \<longleftrightarrow> x = None \<or> x = Some []"
  by (cases x) (auto simp: is_true_def sql_or_def IS_NULL_def sql_eq_def)

lemma set_resource_joined_ids:
  "set (resource_joined_ids d) =
     {a_id a | a. a \<in> set (metadata_runtime_entity_metadata d) \<and> a_resource_blob_id a \<in> Some ` available d
        \<and> a_resource_blob_id a \<noteq> Some []}"
  by (fastforce simp: resource_joined_ids_def available_def is_true_eq_Some has_resource)

lemma set_bean_joined_ids_with_resource:
  "set (bean_joined_ids_with_resource d) =
     {a_id a | a. a \<in> set (metadata_runtime_entity_metadata d) \<and> a_bean_blob_id a \<in> Some ` available d
        \<and> a_resource_blob_id a \<noteq> None \<and> a_resource_blob_id a \<noteq> Some []}"
  by (fastforce simp: bean_joined_ids_with_resource_def available_def is_true_eq_Some has_resource)

lemma set_bean_joined_ids_without_resource:
  "set (bean_joined_ids_without_resource d) =
     {a_id a | a. a \<in> set (metadata_runtime_entity_metadata d) \<and> a_bean_blob_id a \<in> Some ` available d
        \<and> (a_resource_blob_id a = None \<or> a_resource_blob_id a = Some [])}"
  by (fastforce simp: bean_joined_ids_without_resource_def available_def is_true_eq_Some no_resource)

lemma primary_key_inj:
  assumes "primary_key rows" and "a \<in> set rows" and "a' \<in> set rows"
    and "a_id a = a_id a'" and "a_id a \<noteq> None"
  shows "a = a'"
proof -
  have "inj_on a_id (set (filter (\<lambda>a. a_id a \<noteq> None) rows))"
    using assms(1) by (simp add: primary_key_def distinct_map)
  moreover have "a \<in> set (filter (\<lambda>a. a_id a \<noteq> None) rows)"
    "a' \<in> set (filter (\<lambda>a. a_id a \<noteq> None) rows)"
    using assms(2-5) by simp_all
  ultimately show ?thesis using assms(4) by (blast dest: inj_onD)
qed

lemma primary_key_distinct:
  assumes "primary_key rows"
  shows "distinct (filter (\<lambda>a. a_id a \<noteq> None \<and> P a) rows)"
proof -
  have "distinct (filter (\<lambda>a. a_id a \<noteq> None) rows)"
    using assms by (simp add: primary_key_def distinct_map)
  then have "distinct (filter P (filter (\<lambda>a. a_id a \<noteq> None) rows))"
    by (rule distinct_filter)
  moreover have "filter P (filter (\<lambda>a. a_id a \<noteq> None) rows)
      = filter (\<lambda>a. a_id a \<noteq> None \<and> P a) rows"
    by (simp add: conj_commute)
  ultimately show ?thesis by simp
qed

lemma in_ready_ids:
  assumes pk: "primary_key (metadata_runtime_entity_metadata d)"
    and a: "a \<in> set (metadata_runtime_entity_metadata d)"
    and id: "a_id a \<noteq> None"
  shows "a_id a \<in> set (ready_ids d) \<longleftrightarrow> spec_ready (available d) a"
proof
  assume "a_id a \<in> set (ready_ids d)"
  then consider
    (both) "a_id a \<in> set (resource_joined_ids d)" "a_id a \<in> set (bean_joined_ids_with_resource d)"
    | (bean) "a_id a \<in> set (bean_joined_ids_without_resource d)"
    by (auto simp: ready_ids_def UNION_def INTERSECT_def)
  then show "spec_ready (available d) a"
  proof cases
    case both
    from both(1) obtain a1 where a1: "a1 \<in> set (metadata_runtime_entity_metadata d)" "a_id a1 = a_id a"
      "a_resource_blob_id a1 \<in> Some ` available d"
      by (auto simp: set_resource_joined_ids)
    from both(2) obtain a2 where a2: "a2 \<in> set (metadata_runtime_entity_metadata d)" "a_id a2 = a_id a"
      "a_bean_blob_id a2 \<in> Some ` available d"
      by (auto simp: set_bean_joined_ids_with_resource)
    have "a1 = a" using primary_key_inj [OF pk a a1(1) a1(2) [symmetric] id] by simp
    moreover have "a2 = a" using primary_key_inj [OF pk a a2(1) a2(2) [symmetric] id] by simp
    ultimately show ?thesis using a1(3) a2(3) by (simp add: spec_ready_def)
  next
    case bean
    then obtain a3 where a3: "a3 \<in> set (metadata_runtime_entity_metadata d)" "a_id a3 = a_id a"
      "a_bean_blob_id a3 \<in> Some ` available d" "a_resource_blob_id a3 = None \<or> a_resource_blob_id a3 = Some []"
      by (auto simp: set_bean_joined_ids_without_resource)
    have "a3 = a" using primary_key_inj [OF pk a a3(1) a3(2) [symmetric] id] by simp
    with a3(3,4) show ?thesis by (auto simp: spec_ready_def)
  qed
next
  assume r: "spec_ready (available d) a"
  show "a_id a \<in> set (ready_ids d)"
  proof (cases "a_resource_blob_id a = None \<or> a_resource_blob_id a = Some []")
    case True
    with r a have "a_id a \<in> set (bean_joined_ids_without_resource d)"
      unfolding set_bean_joined_ids_without_resource spec_ready_def by blast
    then show ?thesis by (simp add: ready_ids_def UNION_def)
  next
    case False
    with r a have "a_id a \<in> set (resource_joined_ids d)" "a_id a \<in> set (bean_joined_ids_with_resource d)"
      unfolding set_resource_joined_ids set_bean_joined_ids_with_resource spec_ready_def by blast+
    then show ?thesis by (simp add: ready_ids_def UNION_def INTERSECT_def)
  qed
qed

text \<open>The rows returned are the ready rows with an id, of the type asked for if any, in
  the order the engine chooses.\<close>

lemma ready_rows_eq:
  assumes pk: "primary_key (metadata_runtime_entity_metadata d)"
  shows "ready_rows typeFilter d =
     sort_key (row_rank d)
       (filter (\<lambda>a. (typeFilter = [] \<or> a_type a = Some typeFilter)
                  \<and> a_id a \<noteq> None \<and> spec_ready (available d) a)
          (metadata_runtime_entity_metadata d))"
proof -
  have *: "is_true (sql_in (a_id a) (ready_ids d)) \<longleftrightarrow> a_id a \<noteq> None \<and> spec_ready (available d) a"
    if "a \<in> set (metadata_runtime_entity_metadata d)" for a
    using in_ready_ids [OF pk that] by (auto simp: is_true_sql_in)
  have **: "is_true (sql_and (sql_eq t (Some typeFilter)) q) \<longleftrightarrow> t = Some typeFilter \<and> is_true q" for t q
    by (cases t; cases q) (auto simp: is_true_def sql_and_def sql_eq_def)
  have "(if typeFilter = []
        then filter (\<lambda>a. is_true (sql_in (a_id a) (ready_ids d))) (metadata_runtime_entity_metadata d)
        else filter (\<lambda>a. is_true (sql_and (sql_eq (a_type a) (Some typeFilter))
                                          (sql_in (a_id a) (ready_ids d))))
               (metadata_runtime_entity_metadata d))
      = filter (\<lambda>a. (typeFilter = [] \<or> a_type a = Some typeFilter)
                  \<and> a_id a \<noteq> None \<and> spec_ready (available d) a)
          (metadata_runtime_entity_metadata d)"
    using * by (auto simp: ** intro!: filter_cong)
  then show ?thesis by (simp add: ready_rows_def)
qed

lemma getReadyDeployments_rows:
  "fault d Query = None \<Longrightarrow>
   getReadyDeployments typeFilter d = Inr (map spec_Configuration_of_row (ready_rows typeFilter d))"
  by (simp add: getReadyDeployments_def dataDeploymentsFromRows_def structFromRows_select)

text \<open>With a type filter the query returns the ready configurations of that type.\<close>

lemma getReadyDeployments_filtered:
  assumes "fault d Query = None" and "primary_key (metadata_runtime_entity_metadata d)"
  shows "getReadyDeployments typeFilter d =
     Inr (map spec_Configuration_of_row
       (sort_key (row_rank d)
         (filter (\<lambda>a. (typeFilter = [] \<or> a_type a = Some typeFilter)
                    \<and> a_id a \<noteq> None \<and> spec_ready (available d) a)
            (metadata_runtime_entity_metadata d))))"
  using assms by (simp add: getReadyDeployments_rows ready_rows_eq)

text \<open>
  Claim C1, as amended. When the query succeeds on a table that respects its primary key
  (no two rows share an id that is not NULL), a configuration row is among the rows
  that \<open>getReadyDeployments\<close> without a type filter returns if and only if its id is not
  NULL, its bean blob id is available and its resource blob id is NULL, empty or
  available. No row is returned twice, and the function returns the structs of the
  rows returned, in the order the engine chooses.
\<close>

theorem getReadyDeployments_iff_ready:
  assumes "fault d Query = None" and "primary_key (metadata_runtime_entity_metadata d)"
  shows "(\<forall>a. a \<in> set (ready_rows [] d) \<longleftrightarrow>
            a \<in> set (metadata_runtime_entity_metadata d) \<and> a_id a \<noteq> None
            \<and> spec_ready (available d) a)
     \<and> distinct (ready_rows [] d)
     \<and> getReadyDeployments [] d = Inr (map spec_Configuration_of_row (ready_rows [] d))"
proof -
  have rows: "ready_rows [] d =
      sort_key (row_rank d)
        (filter (\<lambda>a. a_id a \<noteq> None \<and> spec_ready (available d) a)
           (metadata_runtime_entity_metadata d))"
    using ready_rows_eq [OF assms(2), of "[]"] by simp
  have members: "a \<in> set (ready_rows [] d) \<longleftrightarrow>
      a \<in> set (metadata_runtime_entity_metadata d) \<and> a_id a \<noteq> None \<and> spec_ready (available d) a" for a
    by (simp add: rows)
  have once: "distinct (ready_rows [] d)"
    using primary_key_distinct [OF assms(2)] by (simp add: rows)
  have "getReadyDeployments [] d = Inr (map spec_Configuration_of_row (ready_rows [] d))"
    using assms(1) by (rule getReadyDeployments_rows)
  with members once show ?thesis by blast
qed

lemma scenario_db_facts:
  "fault scenario_db Query = None"
  "primary_key (metadata_runtime_entity_metadata scenario_db)"
  "available scenario_db = {''b1''}"
  "ready_rows [] scenario_db = [config_A]"
proof -
  show q: "fault scenario_db Query = None"
    by (simp add: scenario_db_def no_fault_def)
  show pk: "primary_key (metadata_runtime_entity_metadata scenario_db)"
    by (simp add: scenario_db_def primary_key_def config_A_def config_B_def)
  show av: "available scenario_db = {''b1''}"
    by (simp add: scenario_db_def available_def)
  show "ready_rows [] scenario_db = [config_A]"
    unfolding ready_rows_eq [OF pk] av
    by (simp add: scenario_db_def spec_ready_def config_A_def config_B_def)
qed

theorem getReadyDeployments_iff_ready_witness:
  "fault scenario_db Query = None \<and> primary_key (metadata_runtime_entity_metadata scenario_db)
   \<and> config_A \<in> set (ready_rows [] scenario_db)
   \<and> config_B \<notin> set (ready_rows [] scenario_db)
   \<and> getReadyDeployments [] scenario_db = Inr [spec_Configuration_of_row config_A]"
proof -
  note t = getReadyDeployments_iff_ready [OF scenario_db_facts(1,2)]
  from t have "getReadyDeployments [] scenario_db
      = Inr (map spec_Configuration_of_row (ready_rows [] scenario_db))"
    by blast
  then show ?thesis
    by (simp add: scenario_db_facts config_A_def config_B_def)
qed

text \<open>The claim as stated speaks of every set of configuration records. SQLite admits a
  NULL in a text primary key, and \<open>NULL IN (...)\<close> is not true: the only row of this
  table has its bean blob on disk and no resource blob, and it is not returned.\<close>

theorem null_id_row_counterexample:
  "fault null_id_db Query = None
   \<and> primary_key (metadata_runtime_entity_metadata null_id_db)
   \<and> config_A\<lparr>a_id := None\<rparr> \<in> set (metadata_runtime_entity_metadata null_id_db)
   \<and> spec_ready (available null_id_db) (config_A\<lparr>a_id := None\<rparr>)
   \<and> ready_rows [] null_id_db = []
   \<and> getReadyDeployments [] null_id_db = Inr []"
proof -
  have q: "fault null_id_db Query = None"
    by (simp add: null_id_db_def no_fault_def)
  have rows: "ready_rows [] null_id_db = []"
    by (simp add: ready_rows_def null_id_db_def is_true_sql_in)
  have "getReadyDeployments [] null_id_db = Inr []"
    using getReadyDeployments_rows [OF q, of "[]"] by (simp add: rows)
  with q rows show ?thesis
    by (simp add: null_id_db_def primary_key_def available_def spec_ready_def config_A_def)
qed

subsection \<open>The unready blobs\<close>

lemma available_ids_set: "set (available_ids d) = Some ` available d"
  by (simp add: available_ids_def available_def image_image)

lemma is_true_sql_not_in_available:
  "is_true (sql_not_in x (available_ids d)) \<and> x \<noteq> None \<longleftrightarrow> x \<noteq> None \<and> x \<notin> Some ` available d"
  using available_ids_set[of d]
  by (cases x) (auto simp: is_true_def sql_not_in_def sql_in_def)

lemma keep_unready: "is_true (sql_and (IS_NOT_NULL i) (sql_neq i (Some []))) \<longleftrightarrow> i \<noteq> None \<and> i \<noteq> Some []"
  by (cases i) (auto simp: is_true_def sql_and_def IS_NOT_NULL_def sql_neq_def sql_eq_def)

lemma getUnreadyBlobs_loop_Some:
  "getUnreadyBlobs_loop (map Some xs) acc = (acc @ xs, None)"
  by (induction xs arbitrary: acc) simp_all

lemma unready_ids_no_NULL: "None \<notin> set (unready_ids d)"
  by (simp add: unready_ids_def keep_unready)

lemma unready_ids_as_strings: "unready_ids d = map Some (map the (unready_ids d))"
proof -
  have "\<forall>x \<in> set (unready_ids d). x = Some (the x)"
    using unready_ids_no_NULL[of d] by (metis option.collapse)
  then show ?thesis by (simp add: map_idI)
qed

lemma distinct_unready_ids: "distinct (unready_ids d)"
  by (simp add: unready_ids_def unready_union_def UNION_def)

lemma set_unready_ids:
  "set (unready_ids d) = Some ` spec_unready (metadata_runtime_entity_metadata d) (available d)"
proof (rule set_eqI)
  fix x
  show "x \<in> set (unready_ids d) \<longleftrightarrow> x \<in> Some ` spec_unready (metadata_runtime_entity_metadata d) (available d)"
  proof (cases x)
    case None
    then show ?thesis using unready_ids_no_NULL[of d] by auto
  next
    case (Some v)
    have nin: "is_true (sql_not_in (Some v) (available_ids d)) \<longleftrightarrow> v \<notin> available d"
      using is_true_sql_not_in_available[of "Some v" d] by auto
    show ?thesis
      unfolding Some
      by (auto simp: unready_ids_def unready_union_def UNION_def keep_unready spec_unready_def
          in_these_eq image_iff nin[symmetric] intro: rev_bexI)
  qed
qed



text \<open>
  Claim C4. When the query succeeds, \<open>getUnreadyBlobs\<close> returns no error and, without
  duplicates, exactly the bean and resource blob ids that some configuration refers to,
  NULL and empty ids left out, minus the available ids. With the same configurations
  and a larger set of available ids the result is a subset of the earlier one.
\<close>

theorem getUnreadyBlobs_is_set_difference:
  assumes "fault d Query = None"
  shows "snd (getUnreadyBlobs d) = None
     \<and> distinct (fst (getUnreadyBlobs d))
     \<and> set (fst (getUnreadyBlobs d)) = spec_unready (metadata_runtime_entity_metadata d) (available d)
     \<and> (\<forall>d'. fault d' Query = None
            \<and> metadata_runtime_entity_metadata d' = metadata_runtime_entity_metadata d
            \<and> available d \<subseteq> available d'
          \<longrightarrow> set (fst (getUnreadyBlobs d')) \<subseteq> set (fst (getUnreadyBlobs d)))"
proof -
  have run: "getUnreadyBlobs e = (map the (unready_ids e), None)" if "fault e Query = None" for e
  proof -
    have "getUnreadyBlobs e = getUnreadyBlobs_loop (map Some (map the (unready_ids e))) []"
      using that unready_ids_as_strings [of e] by (simp add: getUnreadyBlobs_def)
    also have "\<dots> = ([] @ map the (unready_ids e), None)"
      by (rule getUnreadyBlobs_loop_Some)
    finally show ?thesis by simp
  qed
  have ids: "set (fst (getUnreadyBlobs e)) = spec_unready (metadata_runtime_entity_metadata e) (available e)"
    if "fault e Query = None" for e
  proof -
    have "set (fst (getUnreadyBlobs e)) = the ` set (unready_ids e)"
      by (simp add: run [OF that])
    also have "\<dots> = the ` Some ` spec_unready (metadata_runtime_entity_metadata e) (available e)"
      by (simp only: set_unready_ids)
    also have "\<dots> = spec_unready (metadata_runtime_entity_metadata e) (available e)"
      by (simp add: image_image)
    finally show ?thesis .
  qed
  have dist: "distinct (fst (getUnreadyBlobs d))"
  proof -
    have "inj_on the (set (unready_ids d))"
      using unready_ids_no_NULL [of d] by (auto simp: inj_on_def intro: option.expand)
    then show ?thesis by (simp add: run [OF assms] distinct_map distinct_unready_ids)
  qed
  have mono: "spec_unready C A' \<subseteq> spec_unready C A" if "A \<subseteq> A'" for C and A A' :: "string set"
    using that by (auto simp: spec_unready_def)
  have later: "set (fst (getUnreadyBlobs d')) \<subseteq> set (fst (getUnreadyBlobs d))"
    if "fault d' Query = None"
      and "metadata_runtime_entity_metadata d' = metadata_runtime_entity_metadata d"
      and "available d \<subseteq> available d'" for d'
    using that mono [OF that(3)] by (simp add: ids [OF assms] ids [OF that(1)])
  have ok: "snd (getUnreadyBlobs d) = None"
    by (simp add: run [OF assms])
  from ok dist ids [OF assms] later show ?thesis by blast
qed

lemma scenario_unready: "spec_unready [config_A, config_B] {''b1''} = {''b2'', ''r2''}"
  by (auto simp: spec_unready_def config_A_def config_B_def in_these_eq)

theorem getUnreadyBlobs_is_set_difference_witness:
  "fault scenario_db Query = None \<and> snd (getUnreadyBlobs scenario_db) = None
   \<and> set (fst (getUnreadyBlobs scenario_db)) = {''b2'', ''r2''}
   \<and> fault later_db Query = None
   \<and> metadata_runtime_entity_metadata later_db = metadata_runtime_entity_metadata scenario_db
   \<and> available scenario_db \<subseteq> available later_db
   \<and> set (fst (getUnreadyBlobs later_db)) \<subseteq> {''b2'', ''r2''}"
proof -
  have facts: "fault scenario_db Query = None" "fault later_db Query = None"
    "metadata_runtime_entity_metadata later_db = metadata_runtime_entity_metadata scenario_db"
    "available scenario_db \<subseteq> available later_db"
    "metadata_runtime_entity_metadata scenario_db = [config_A, config_B]"
    "available scenario_db = {''b1''}"
    by (simp_all add: scenario_db_def later_db_def no_fault_def available_def)
  note t = getUnreadyBlobs_is_set_difference [OF facts(1)]
  from t have ok: "snd (getUnreadyBlobs scenario_db) = None" by blast
  from t have s: "set (fst (getUnreadyBlobs scenario_db)) = {''b2'', ''r2''}"
    by (simp add: facts(5,6) scenario_unready)
  from t facts(2-4) have "set (fst (getUnreadyBlobs later_db)) \<subseteq> set (fst (getUnreadyBlobs scenario_db))"
    by blast
  with ok s facts show ?thesis by simp
qed

subsection \<open>Recording and looking up blob locations\<close>

lemma string_literal_plain:
  "quote \<notin> set s \<Longrightarrow> CHR 0x00 \<notin> set s \<Longrightarrow> string_literal (s @ [quote]) = Some s"
proof (induction s)
  case Nil
  then show ?case by simp
next
  case (Cons c s)
  then show ?case by (cases s) auto
qed

lemma lookup_rows_plain:
  assumes "fault d Query = None" "quote \<notin> set blobId" "CHR 0x00 \<notin> set blobId"
  shows "lookup_rows blobId d =
     Inr (map (\<lambda>b. Some (b_local_fs_location b)) (filter (\<lambda>b. b_id b = blobId) (apid_blob_available d)))"
proof -
  have *: "is_true (sql_eq (Some x) (Some y)) \<longleftrightarrow> x = y" for x y :: string
    by (simp add: is_true_def sql_eq_def)
  have "[Some (b_local_fs_location b). b \<leftarrow> rows, is_true (sql_eq (Some (b_id b)) (Some blobId))]
      = map (\<lambda>b. Some (b_local_fs_location b)) (filter (\<lambda>b. b_id b = blobId) rows)" for rows
    by (induction rows) (simp_all add: *)
  then show ?thesis
    using assms by (simp add: lookup_rows_def string_literal_plain)
qed

lemma INSERT_OR_IGNORE_fresh:
  "blobId \<notin> set (map b_id rows) \<Longrightarrow>
   filter (\<lambda>b. b_id b = blobId) (INSERT_OR_IGNORE blobId p rows) = [\<lparr>b_id = blobId, b_local_fs_location = p\<rparr>]"
  by (induction rows) (auto simp: INSERT_OR_IGNORE_def)

lemma INSERT_OR_IGNORE_again:
  "INSERT_OR_IGNORE blobId p2 (INSERT_OR_IGNORE blobId p1 rows) = INSERT_OR_IGNORE blobId p1 rows"
  by (simp add: INSERT_OR_IGNORE_def)

text \<open>For a blob id without quote and NUL characters, not yet recorded, recording twice
  succeeds twice and the lookup returns the first path, after the first and after the
  second call.\<close>

lemma updateLocalFsLocation_first_writer_wins:
  assumes "fault d = no_fault" and "quote \<notin> set blobId" and "CHR 0x00 \<notin> set blobId"
    and "blobId \<notin> available d"
  shows "fst (updateLocalFsLocation blobId p1 d) = None
     \<and> fst (updateLocalFsLocation blobId p2 (snd (updateLocalFsLocation blobId p1 d))) = None
     \<and> getLocalFSLocation blobId (snd (updateLocalFsLocation blobId p1 d)) = Inr p1
     \<and> getLocalFSLocation blobId
          (snd (updateLocalFsLocation blobId p2 (snd (updateLocalFsLocation blobId p1 d)))) = Inr p1"
proof -
  let ?d1 = "d\<lparr>apid_blob_available := INSERT_OR_IGNORE blobId p1 (apid_blob_available d)\<rparr>"
  have u1: "updateLocalFsLocation blobId p1 d = (None, ?d1)"
    using assms(1) by (simp add: updateLocalFsLocation_def no_fault_def)
  have u2: "updateLocalFsLocation blobId p2 ?d1 = (None, ?d1)"
    using assms(1) by (simp add: updateLocalFsLocation_def no_fault_def INSERT_OR_IGNORE_again)
  have q: "fault ?d1 Query = None"
    using assms(1) by (simp add: no_fault_def)
  have "getLocalFSLocation blobId ?d1 = Inr p1"
    using assms(4) lookup_rows_plain [OF q assms(2,3)]
    by (simp add: getLocalFSLocation_def INSERT_OR_IGNORE_fresh available_def)
  then show ?thesis by (simp add: u1 u2)
qed


text \<open>
  Claim C5. The claim holds for the blob ids of the lemma above, but not for every blob id:
  \<open>updateLocalFsLocation\<close> binds the id as a parameter, \<open>getLocalFSLocation\<close> pastes it
  into the query text. Recording the id \<open>a''b\<close> twice succeeds twice and keeps the first
  row, yet the lookup of \<open>a''b\<close> compares \<open>id\<close> with the literal's value \<open>a'b\<close>, finds no
  row and returns the empty string without an error, not the path of the first call.
\<close>

theorem getLocalFSLocation_misses_quoted_blob_id:
  "fst (updateLocalFsLocation quoted_blob_id ''/tmp/first'' empty_db) = None
   \<and> fst (updateLocalFsLocation quoted_blob_id ''/tmp/second''
           (snd (updateLocalFsLocation quoted_blob_id ''/tmp/first'' empty_db))) = None
   \<and> apid_blob_available
        (snd (updateLocalFsLocation quoted_blob_id ''/tmp/second''
           (snd (updateLocalFsLocation quoted_blob_id ''/tmp/first'' empty_db))))
      = [\<lparr>b_id = quoted_blob_id, b_local_fs_location = ''/tmp/first''\<rparr>]
   \<and> getLocalFSLocation quoted_blob_id
        (snd (updateLocalFsLocation quoted_blob_id ''/tmp/second''
           (snd (updateLocalFsLocation quoted_blob_id ''/tmp/first'' empty_db))))
      = Inr []"
  by (simp add: updateLocalFsLocation_def empty_db_def no_fault_def INSERT_OR_IGNORE_def
      getLocalFSLocation_def lookup_rows_def quoted_blob_id_def quote_def is_true_def sql_eq_def)

section \<open>Properties of the API\<close>

subsection \<open>GET /configurations\<close>

lemma Atoi_zero: "Atoi ''0'' = Inr 0"
  by (simp add: Atoi_def ParseInt_def is_digit_def digit_value_def)

lemma Atoi_minus_one: "Atoi ''-1'' = Inr (- 1)"
  by (simp add: Atoi_def ParseInt_def is_digit_def digit_value_def)

lemma status_writeError [simp]:
  "status (writeError new_ResponseWriter st code reason) = Some st"
  by (simp add: writeError_def new_ResponseWriter_def WriteHeader_def Write_def
      json_Marshal_errorResponse_def Let_def)

lemma status_writeInternalError [simp]:
  "status (writeInternalError new_ResponseWriter reason) = Some StatusInternalServerError"
  by (simp add: writeInternalError_def)

lemma status_sendDeployments [simp]:
  "status (sendDeployments e new_ResponseWriter ds t) = Some StatusOK"
  by (simp add: sendDeployments_def new_ResponseWriter_def WriteHeader_def Write_def Header_Set_def
      json_Marshal_ApiDeploymentResponse_def Let_def)

lemma status_sendReadyDeployments:
  "status (sendReadyDeployments e st new_ResponseWriter) \<in> {Some StatusOK, Some StatusInternalServerError}"
  by (simp add: sendReadyDeployments_def Let_def split: prod.split)

lemma status_WriteHeader_new [simp]: "status (WriteHeader c new_ResponseWriter) = Some c"
  by (simp add: WriteHeader_def new_ResponseWriter_def)

lemmas status_codes = StatusOK_def StatusNotModified_def StatusBadRequest_def StatusNotFound_def
  StatusInternalServerError_def

lemma getETag_initial: "getETag initial_world = ''0''"
  by code_simp

text \<open>
  Claim C8. A request whose \<open>If-None-Match\<close> token equals the current token and whose
  \<open>block\<close> parameter is absent or \<open>0\<close> is answered with status 304 and no header or body
  written, and the handler sends nothing to \<open>distributeEvents\<close>: no waiter is registered.
\<close>

theorem not_modified_without_waiting:
  assumes "ifNoneMatch r = getETag st" and "block r = [] \<or> block r = ''0''"
  shows "apiGetCurrentDeployments e st ch sel r new_ResponseWriter =
     \<lparr>response = \<lparr>status = Some StatusNotModified, header = [], body = []\<rparr>, sent = []\<rparr>"
proof -
  have "(if block r \<noteq> [] then Atoi (block r) else Inr 0) = Inr 0"
    using assms(2) Atoi_zero by auto
  then show ?thesis
    using assms(1)
    by (simp add: apiGetCurrentDeployments_def Let_def WriteHeader_def new_ResponseWriter_def)
qed

theorem not_modified_without_waiting_witness:
  "ifNoneMatch \<lparr>block = ''0'', ifNoneMatch = ''0''\<rparr> = getETag initial_world
   \<and> apiGetCurrentDeployments scenario_env initial_world 7 TimedOut
        \<lparr>block = ''0'', ifNoneMatch = ''0''\<rparr> new_ResponseWriter =
      \<lparr>response = \<lparr>status = Some 304, header = [], body = []\<rparr>, sent = []\<rparr>"
  using not_modified_without_waiting
    [of "\<lparr>block = ''0'', ifNoneMatch = ''0''\<rparr>" initial_world scenario_env 7 TimedOut]
  by (simp add: getETag_initial StatusNotModified_def)

text \<open>
  Claim C7, as amended. The response status is 400 exactly when the \<open>block\<close> parameter is not
  empty and \<open>strconv.Atoi\<close> rejects it. A negative integer is a number that \<open>Atoi\<close>
  accepts, so it is not answered with 400.
\<close>

theorem bad_block_is_bad_request:
  "status (response (apiGetCurrentDeployments e st ch sel r new_ResponseWriter)) = Some StatusBadRequest
     \<longleftrightarrow> block r \<noteq> [] \<and> isl (Atoi (block r))"
proof (cases "if block r \<noteq> [] then Atoi (block r) else Inr 0")
  case (Inl err')
  then have "block r \<noteq> []" "isl (Atoi (block r))"
    by (auto split: if_splits)
  with Inl show ?thesis
    by (simp add: apiGetCurrentDeployments_def Let_def)
next
  case (Inr t)
  then have no: "\<not> (block r \<noteq> [] \<and> isl (Atoi (block r)))"
    by (auto split: if_splits)
  have "status (response (apiGetCurrentDeployments e st ch sel r new_ResponseWriter))
      \<in> {Some StatusOK, Some StatusNotModified, Some StatusInternalServerError}"
    using Inr status_sendReadyDeployments [of e st]
    by (auto simp: apiGetCurrentDeployments_def Let_def split: select_case.split)
  with no show ?thesis by (auto simp: status_codes)
qed

theorem bad_block_is_bad_request_witness:
  "block \<lparr>block = ''soon'', ifNoneMatch = []\<rparr> \<noteq> []
   \<and> Atoi ''soon'' = Inl ErrSyntax
   \<and> status (response (apiGetCurrentDeployments scenario_env initial_world 7 TimedOut
        \<lparr>block = ''soon'', ifNoneMatch = []\<rparr> new_ResponseWriter)) = Some 400"
proof -
  have a: "Atoi ''soon'' = Inl ErrSyntax"
    by (simp add: Atoi_def ParseInt_def is_digit_def)
  show ?thesis
    using bad_block_is_bad_request
      [of scenario_env initial_world 7 TimedOut "\<lparr>block = ''soon'', ifNoneMatch = []\<rparr>"]
    by (simp add: a StatusBadRequest_def)
qed

text \<open>The claim as stated asks for 400 on \<open>block=-1\<close>. With the current token in
  \<open>If-None-Match\<close> the handler subscribes nothing, its timer fires at once, and it answers
  304.\<close>

theorem negative_block_counterexample:
  "Atoi ''-1'' = Inr (- 1)
   \<and> apiGetCurrentDeployments scenario_env initial_world 7 TimedOut
        \<lparr>block = ''-1'', ifNoneMatch = ''0''\<rparr> new_ResponseWriter =
      \<lparr>response = \<lparr>status = Some 304, header = [], body = []\<rparr>,
       sent = [RemoveSubscriber None]\<rparr>"
  by (simp add: Atoi_minus_one apiGetCurrentDeployments_def Let_def getETag_initial
      WriteHeader_def new_ResponseWriter_def StatusNotModified_def)

subsection \<open>GET /blob/{blobId}\<close>

text \<open>The handler answers 200 or 500 and nothing else: 200 with the bytes of the file when
  the lookup and the read succeed, 500 when the read fails.\<close>

lemma status_Write_new [simp]: "status (Write b new_ResponseWriter) = Some StatusOK"
  by (simp add: Write_def)

lemma apiReturnBlobData_status:
  "status (apiReturnBlobData d files connection_error blobId new_ResponseWriter)
     \<in> {Some StatusOK, Some StatusInternalServerError}"
  by (auto simp: apiReturnBlobData_def io_Copy_def split: sum.split option.split)

lemma apiReturnBlobData_served:
  assumes "getLocalFSLocation blobId d = Inr fs" and "ReadFile files fs = Inr bytes"
  shows "apiReturnBlobData d files None blobId new_ResponseWriter =
     \<lparr>status = Some StatusOK, header = [], body = [Bytes bytes]\<rparr>"
  using assms
  by (simp add: apiReturnBlobData_def io_Copy_def Write_def WriteHeader_def new_ResponseWriter_def)

lemma apiReturnBlobData_read_failure:
  assumes "getLocalFSLocation blobId d = Inr fs" and "ReadFile files fs = Inl err'"
  shows "status (apiReturnBlobData d files connection_error blobId new_ResponseWriter)
     = Some StatusInternalServerError"
  using assms by (simp add: apiReturnBlobData_def)

text \<open>
  Claim C3. The claim asks for status 404 when the blob id has no recorded path. On an
  empty table the lookup of \<open>missing\<close> returns the empty path and no error, reading the
  empty path fails, and the handler answers 500 with the read error, whatever the files
  on disk and the state of the connection.
\<close>

theorem unmapped_blob_is_internal_error:
  "getLocalFSLocation ''missing'' empty_db = Inr []
   \<and> apiReturnBlobData empty_db files connection_error ''missing'' new_ResponseWriter =
       \<lparr>status = Some 500, header = [],
        body = [JSON_errorResponse
                 \<lparr>json_errorCode = 2, json_reason = ''open : no such file or directory''\<rparr>]\<rparr>"
proof -
  have "string_literal (''missing'' @ [quote]) = Some ''missing''"
    by (simp add: quote_def)
  then have l: "getLocalFSLocation ''missing'' empty_db = Inr []"
    by (simp add: getLocalFSLocation_def lookup_rows_def empty_db_def no_fault_def)
  show ?thesis
    by (simp add: l apiReturnBlobData_def ReadFile_def writeInternalError_def writeError_def
        json_Marshal_errorResponse_def Write_def WriteHeader_def new_ResponseWriter_def Let_def
        StatusInternalServerError_def StatusOK_def API_ERR_INTERNAL_def)
qed

subsection \<open>Timestamps\<close>

text \<open>\<open>sendDeployments\<close> copies the timestamps of every deployment into the response as
  they are.\<close>

lemma sendDeployments_loop_created:
  "map json_created (sendDeployments_loop ds acc) = map json_created acc @ map dd_Created ds"
  "map json_updated (sendDeployments_loop ds acc) = map json_updated acc @ map dd_Updated ds"
  by (induction ds arbitrary: acc) simp_all

text \<open>
  Claim C9. The claim asks for one ISO-8601 form whatever the format of the source. A
  deployment created at \<open>2017-04-05 04:47:36.462 +0000 UTC\<close> and updated at
  \<open>2017-04-05T04:47:36.462Z\<close>, the same instant in two formats, is sent with exactly these
  two texts.
\<close>

theorem sendDeployments_copies_timestamps:
  "body (sendDeployments scenario_env new_ResponseWriter [deployment_A] ''1'') =
     [JSON_ApiDeploymentResponse
        \<lparr>json_kind = ''Collections'',
         json_collection_self = ''http://localhost:9000/configurations'',
         json_contents =
           [\<lparr>json_self = [], json_name = [], json_org = ''org'', json_env = [],
             json_type = ''ORGANIZATION'', json_bloburl = ''http://localhost:9000/blob/b1'',
             json_revision = ''1'', json_blobId = ''b1'', json_resourceBlobId = [],
             json_created = ''2017-04-05 04:47:36.462 +0000 UTC'',
             json_updated = ''2017-04-05T04:47:36.462Z''\<rparr>]\<rparr>]"
  by (simp add: sendDeployments_def json_Marshal_ApiDeploymentResponse_def Write_def WriteHeader_def
      Header_Set_def new_ResponseWriter_def get_http_host_def scenario_env_def localhost_config_def
      deployment_A_def Let_def)

subsection \<open>Settled batches\<close>

text \<open>Every settled batch empties the set of waiters, adds one to the counter and sends
  each waiter the answer of \<open>getUnreadyDeployments()\<close> with the new token.\<close>

lemma settle_general:
  "subscribers (distributeEvents_step (DeliverDeployments e) w) = {}
   \<and> eTag (distributeEvents_step (DeliverDeployments e) w) = eTag w + 1
   \<and> channels (distributeEvents_step (DeliverDeployments e) w) =
       deliver (subscribers w)
         \<lparr>result_deployments = fst (getUnreadyDeployments_answer e),
          result_err = snd (getUnreadyDeployments_answer e),
          result_eTag = FormatInt (sint (eTag w + 1))\<rparr>
         (channels w)"
  by (simp add: distributeEvents_step_def incrementETag_def Let_def split: prod.split)

text \<open>
  Claim C2. The claim asks that the waiters are sent the ready configurations. With
  deployment \<open>A\<close> ready and deployment \<open>B\<close> unready, the waiter on channel \<open>7\<close> is sent
  \<open>B\<close> with the token \<open>1\<close>; the counter went from 0 to 1 and no waiter is left.
\<close>

theorem waiters_receive_unready_deployments:
  "channels (distributeEvents_step (DeliverDeployments scenario_env) waiting_world) 7 =
     [\<lparr>result_deployments = [deployment_B], result_err = None, result_eTag = ''1''\<rparr>]
   \<and> getReadyDeployments_answer scenario_env = ([deployment_A], None)
   \<and> deployment_B \<noteq> deployment_A
   \<and> subscribers (distributeEvents_step (DeliverDeployments scenario_env) waiting_world) = {}
   \<and> eTag (distributeEvents_step (DeliverDeployments scenario_env) waiting_world) = 1"
proof -
  have one: "FormatInt 1 = ''1''"
    by code_simp
  show ?thesis
    by (simp add: settle_general deliver_def waiting_world_def scenario_env_def no_results_def one
        deployment_A_def deployment_B_def)
qed

subsection \<open>The version token\<close>

text \<open>Tokens are decimal numbers: reading a token with \<open>Atoi\<close> gives the counter back, so
  two states have the same token only when their counters are equal.\<close>

lemma digit_char_is_digit: "d < 10 \<Longrightarrow> is_digit (digit_char d)"
  by (simp add: is_digit_def digit_char_def)

lemma digit_value_digit_char: "d < 10 \<Longrightarrow> digit_value (digit_char d) = d"
  by (simp add: digit_value_def digit_char_def)

lemma is_digit_no_sign: "is_digit c \<Longrightarrow> c \<noteq> CHR ''-'' \<and> c \<noteq> CHR ''+''"
  by (auto simp: is_digit_def)

lemma ParseUint_loop_append:
  "ParseUint_loop (xs @ ys) n =
     (case ParseUint_loop xs n of Inl e \<Rightarrow> Inl e | Inr m \<Rightarrow> ParseUint_loop ys m)"
  by (induction xs arbitrary: n) simp_all

lemma format_nat_digits: "format_nat n \<noteq> [] \<and> is_digit (hd (format_nat n))"
proof (induction n rule: format_nat.induct)
  case (1 n)
  show ?case
  proof (cases "n < 10")
    case True
    then show ?thesis by (simp add: format_nat.simps [of n] digit_char_is_digit)
  next
    case False
    with 1 show ?thesis by (simp add: format_nat.simps [of n])
  qed
qed

lemma ParseUint_format_nat: "n < 2 ^ 64 \<Longrightarrow> ParseUint_loop (format_nat n) 0 = Inr n"
proof (induction n rule: format_nat.induct)
  case (1 n)
  show ?case
  proof (cases "n < 10")
    case True
    then show ?thesis
      using "1.prems" by (simp add: format_nat.simps [of n] digit_char_is_digit digit_value_digit_char)
  next
    case False
    have small: "n div 10 < 2 ^ 64" using "1.prems" by simp
    have d: "n mod 10 < 10" by simp
    have "ParseUint_loop (format_nat (n div 10)) 0 = Inr (n div 10)"
      using "1.IH" [OF False small] .
    moreover have "n div 10 * 10 + n mod 10 = n" by simp
    ultimately show ?thesis
      using False "1.prems"
      by (simp add: format_nat.simps [of n] ParseUint_loop_append digit_char_is_digit [OF d]
          digit_value_digit_char [OF d])
  qed
qed

lemma ParseInt_format_nat:
  "(if neg then m \<le> 2 ^ 63 else m < 2 ^ 63) \<Longrightarrow>
   ParseInt neg (format_nat m) = Inr (if neg then - int m else int m)"
proof -
  assume b: "if neg then m \<le> 2 ^ 63 else m < 2 ^ 63"
  then have "m < 2 ^ 64" by (auto split: if_splits)
  then have "ParseUint_loop (format_nat m) 0 = Inr m" by (rule ParseUint_format_nat)
  with b show ?thesis
    using format_nat_digits [of m] by (auto simp: ParseInt_def split: if_splits)
qed

text \<open>Reading a token back gives the counter: tokens are decimal numbers.\<close>

lemma Atoi_FormatInt:
  assumes "- (2 ^ 63) \<le> i" and "i < 2 ^ 63"
  shows "Atoi (FormatInt i) = Inr i"
proof (cases "i < 0")
  case True
  then have "nat (- i) \<le> 2 ^ 63" using assms(1) by simp
  then have "ParseInt True (format_nat (nat (- i))) = Inr (- int (nat (- i)))"
    using ParseInt_format_nat [of True "nat (- i)"] by simp
  with True show ?thesis by (simp add: Atoi_def FormatInt_def)
next
  case False
  then have "nat i < 2 ^ 63" using assms(2) by simp
  then have p: "ParseInt False (format_nat (nat i)) = Inr (int (nat i))"
    using ParseInt_format_nat [of False "nat i"] by simp
  obtain c cs where s: "format_nat (nat i) = c # cs" "is_digit c"
    using format_nat_digits [of "nat i"] by (cases "format_nat (nat i)") auto
  from s(2) have "c \<noteq> CHR ''-''" "c \<noteq> CHR ''+''" using is_digit_no_sign by auto
  with False p s(1) show ?thesis by (simp add: Atoi_def FormatInt_def)
qed

lemma getETag_inj: "getETag w = getETag w' \<longleftrightarrow> eTag w = eTag w'"
proof
  assume "getETag w = getETag w'"
  then have "Atoi (FormatInt (sint (eTag w))) = Atoi (FormatInt (sint (eTag w')))"
    by (simp add: getETag_def)
  moreover have "- (2 ^ 63) \<le> sint x \<and> sint x < 2 ^ 63" for x :: "64 word"
    using sint_ge [of x] sint_lt [of x] by simp
  ultimately have "sint (eTag w) = sint (eTag w')"
    by (simp add: Atoi_FormatInt)
  then show "eTag w = eTag w'" by (rule signed_word_eqI)
qed (simp add: getETag_def)

lemma sint_add_of_nat:
  fixes x :: "64 word"
  assumes "sint x + int n < 2 ^ 63"
  shows "sint (x + of_nat n) = sint x + int n"
proof -
  have x: "signed_take_bit 63 (sint x) = sint x"
    using sint_ge [of x] sint_lt [of x] by (simp add: signed_take_bit_int_eq_self)
  have "sint (x + of_nat n) = signed_take_bit 63 (sint x + sint (of_nat n :: 64 word))"
    by (simp add: sint_word_add)
  also have "sint (of_nat n :: 64 word) = signed_take_bit 63 (int n)"
    using sint_sbintrunc' [where 'a=64, of "int n"] by simp
  also have "signed_take_bit 63 (sint x + signed_take_bit 63 (int n)) = signed_take_bit 63 (sint x + int n)"
    using signed_take_bit_add [of 63 "sint x" "int n"] by (simp add: x)
  also have "\<dots> = sint x + int n"
    using assms sint_ge [of x] by (simp add: signed_take_bit_int_eq_self)
  finally show ?thesis .
qed

lemma eTag_distributeEvents:
  "eTag (distributeEvents evs w) = eTag w + of_nat (settles evs)"
proof (induction evs arbitrary: w)
  case Nil
  then show ?case by simp
next
  case (Cons ev evs)
  show ?case
  proof (cases ev)
    case (DeliverDeployments e)
    then show ?thesis
      by (simp add: Cons distributeEvents_step_def incrementETag_def Let_def split: prod.split)
  next
    case Closed
    then show ?thesis by simp
  next
    case (AddSubscriber c)
    then show ?thesis by (simp add: Cons distributeEvents_step_def)
  next
    case (RemoveSubscriber c)
    then show ?thesis by (simp add: Cons distributeEvents_step_def split: option.split)
  qed
qed

lemma settles_append_le: "settles evs \<le> settles (evs @ evs')"
  by (induction evs rule: settles.induct) simp_all


lemma digit_chars:
  "digit_char 0 = CHR ''0''" "digit_char 1 = CHR ''1''" "digit_char 2 = CHR ''2''"
  "digit_char 3 = CHR ''3''" "digit_char 4 = CHR ''4''" "digit_char 5 = CHR ''5''"
  "digit_char 6 = CHR ''6''" "digit_char 7 = CHR ''7''" "digit_char 8 = CHR ''8''"
  "digit_char 9 = CHR ''9''"
  by code_simp+

lemma format_nat_numeral:
  "format_nat (numeral k) =
     (if (numeral k :: nat) < 10 then [digit_char (numeral k)]
      else format_nat (numeral k div 10) @ [digit_char (numeral k mod 10)])"
  by (rule format_nat.simps)

lemma format_nat_one: "format_nat (Suc 0) = ''1''" "format_nat 1 = ''1''" "format_nat 0 = ''0''"
  by code_simp+

lemma FormatInt_min_int64: "FormatInt (- 9223372036854775808) = ''-9223372036854775808''"
  by (simp add: FormatInt_def format_nat_numeral format_nat_one digit_chars)


text \<open>
  Claim C6, as amended. While the counter stays below \<open>2 ^ 63\<close>, every settled batch adds
  exactly one to it: after any events the counter is its first value plus the number of
  batches handled, and whenever at least one more batch is handled the later token is
  strictly greater than the earlier one and is a different text. So the token never
  decreases and no two settled batches share a token.
\<close>

theorem version_token_increases_below_int64_max:
  assumes "sint (eTag w) + int (settles (evs @ evs')) < 2 ^ 63"
    and "settles evs < settles (evs @ evs')"
  shows "sint (eTag (distributeEvents (evs @ evs') w)) = sint (eTag w) + int (settles (evs @ evs'))
     \<and> sint (eTag (distributeEvents evs w)) < sint (eTag (distributeEvents (evs @ evs') w))
     \<and> getETag (distributeEvents evs w) \<noteq> getETag (distributeEvents (evs @ evs') w)"
proof -
  have later: "sint (eTag (distributeEvents (evs @ evs') w)) = sint (eTag w) + int (settles (evs @ evs'))"
    using assms(1) by (simp add: eTag_distributeEvents sint_add_of_nat)
  have "sint (eTag w) + int (settles evs) < 2 ^ 63"
    using assms by linarith
  then have earlier: "sint (eTag (distributeEvents evs w)) = sint (eTag w) + int (settles evs)"
    by (simp add: eTag_distributeEvents sint_add_of_nat)
  have less: "sint (eTag (distributeEvents evs w)) < sint (eTag (distributeEvents (evs @ evs') w))"
    using assms(2) by (simp add: earlier later)
  then have "eTag (distributeEvents evs w) \<noteq> eTag (distributeEvents (evs @ evs') w)"
    by auto
  with later less show ?thesis by (simp add: getETag_inj)
qed

theorem version_token_increases_below_int64_max_witness:
  "sint (eTag initial_world)
      + int (settles ([DeliverDeployments scenario_env] @ [AddSubscriber 7, DeliverDeployments scenario_env]))
      < 2 ^ 63
   \<and> settles [DeliverDeployments scenario_env]
      < settles ([DeliverDeployments scenario_env] @ [AddSubscriber 7, DeliverDeployments scenario_env])
   \<and> sint (eTag (distributeEvents
        ([DeliverDeployments scenario_env] @ [AddSubscriber 7, DeliverDeployments scenario_env])
        initial_world)) = 2
   \<and> sint (eTag (distributeEvents [DeliverDeployments scenario_env] initial_world))
      < sint (eTag (distributeEvents
          ([DeliverDeployments scenario_env] @ [AddSubscriber 7, DeliverDeployments scenario_env])
          initial_world))"
proof -
  have z: "sint (eTag initial_world) = 0"
    by (simp add: initial_world_def)
  show ?thesis
    using version_token_increases_below_int64_max
      [of initial_world "[DeliverDeployments scenario_env]"
        "[AddSubscriber 7, DeliverDeployments scenario_env]"]
    by (simp add: z)
qed


text \<open>The claim as stated speaks of any sequence of settles. The counter is an \<open>int64\<close>:
  at \<open>9223372036854775807\<close> the next batch takes it to \<open>-9223372036854775808\<close>, a token
  smaller than every token before.\<close>

theorem version_token_wraps_counterexample:
  "sint (eTag last_world) = 9223372036854775807
   \<and> sint (eTag (distributeEvents [DeliverDeployments scenario_env] last_world))
       = - 9223372036854775808
   \<and> fst (incrementETag last_world) = ''-9223372036854775808''"
  by (simp add: last_world_def distributeEvents_step_def incrementETag_def Let_def FormatInt_min_int64
      split: prod.split)


text \<open>The state of the counterexample is the state after \<open>2 ^ 63 - 1\<close> settled batches.\<close>

lemma last_world_reached:
  assumes "settles evs = 9223372036854775807"
  shows "eTag (distributeEvents evs initial_world) = eTag last_world"
proof -
  have "eTag (distributeEvents evs initial_world) = 0 + of_nat (9223372036854775807 :: nat)"
    using assms by (simp only: eTag_distributeEvents initial_world_def world.simps)
  also have "\<dots> = (0x7FFFFFFFFFFFFFFF :: 64 word)"
    by simp
  finally show ?thesis by (simp add: last_world_def)
qed

text \<open>Between two settled batches the token stays while the store may change: two
  immediate responses then carry the same token and different contents.\<close>

lemma same_token_between_settles:
  "header (sendReadyDeployments scenario_env initial_world new_ResponseWriter) = [(''ETag'', ''0'')]
   \<and> header (sendReadyDeployments (scenario_env\<lparr>getReadyDeployments_answer := ([], None)\<rparr>)
        initial_world new_ResponseWriter) = [(''ETag'', ''0'')]
   \<and> body (sendReadyDeployments scenario_env initial_world new_ResponseWriter)
      \<noteq> body (sendReadyDeployments (scenario_env\<lparr>getReadyDeployments_answer := ([], None)\<rparr>)
          initial_world new_ResponseWriter)"
  by (simp add: sendReadyDeployments_def sendDeployments_def getETag_initial scenario_env_def
      json_Marshal_ApiDeploymentResponse_def Write_def WriteHeader_def Header_Set_def
      new_ResponseWriter_def Let_def)



end
